theory Spec2Isabelle
  imports Complex_Main "HOL-Library.List_Lexorder" "HOL-Library.Char_ord"
begin

section \<open>Weight readings and the rolling average\<close>

text \<open>
  For the iOS client a date is a \<^verbatim>\<open>Date\<close>, an instant on the time line, here measured in days
  (the fractional part is the time of day). The server keeps dates as text and compares
  the text. Weights are \<^verbatim>\<open>Double\<close>/\<^verbatim>\<open>number\<close> in the source and real numbers here.
\<close>

type_synonym date = real

text \<open>
  A weight reading, with its date of type \<open>'d\<close>: an instant for the rolling average, the
  text of the \<^verbatim>\<open>date\<close> column for the tools that list readings.
\<close>

record 'd WeightReading =
  reading_id :: string
  date :: 'd
  weight :: real
  body_fat_percentage :: "real option"
  muscle_mass_percentage :: "real option"
  source :: string

text \<open>\<^verbatim>\<open>WeightAverageCalculator.AverageResult\<close> (WeightAverageCalculator.swift).\<close>

record AverageResult =
  average :: "real option"
  confidence :: real
  readingCount :: nat
  isValid :: bool

text \<open>
  \<^verbatim>\<open>calendar.date(byAdding: .day, value: n, to: d)\<close>: the instant \<open>n\<close> days after \<open>d\<close>.
\<close>

definition addingDays :: "int \<Rightarrow> date \<Rightarrow> date" where
  "addingDays n d = d + real_of_int n"

text \<open>\<^verbatim>\<open>WeightAverageCalculator.calculate7DayAverage(from:targetDate:windowDays:)\<close>.\<close>

definition calculate7DayAverage :: "date WeightReading list \<Rightarrow> date \<Rightarrow> int \<Rightarrow> AverageResult" where
  "calculate7DayAverage readings targetDate windowDays =
     (let windowStart = addingDays (- windowDays + 1) targetDate;
          relevantReadings =
            filter (\<lambda>reading. date reading \<ge> windowStart \<and> date reading \<le> targetDate) readings
      in if \<not> (length relevantReadings \<ge> 3) then
           \<lparr> average = None, confidence = 0,
             readingCount = length relevantReadings, isValid = False \<rparr>
         else
           let sum = foldl (\<lambda>acc r. acc + weight r) 0 relevantReadings;
               avg = sum / real (length relevantReadings);
               conf = real (length relevantReadings) / real_of_int windowDays
           in \<lparr> average = Some avg, confidence = conf,
                readingCount = length relevantReadings, isValid = True \<rparr>)"

subsection \<open>The trailing window as the specification words it\<close>

text \<open>
  The readings whose date lies in the inclusive interval
  \<open>[targetDate - windowDays + 1, targetDate]\<close>, and their arithmetic mean.
\<close>

definition inWindow :: "date WeightReading list \<Rightarrow> date \<Rightarrow> int \<Rightarrow> date WeightReading list" where
  "inWindow readings targetDate windowDays =
     filter (\<lambda>r. date r \<in> {targetDate - real_of_int windowDays + 1 .. targetDate}) readings"

definition mean :: "real list \<Rightarrow> real" where
  "mean xs = sum_list xs / real (length xs)"

text \<open>A reading of weight \<open>w\<close> taken at the start of day \<open>d\<close>.\<close>

definition day :: "int \<Rightarrow> real \<Rightarrow> date WeightReading" where
  "day d w = \<lparr> reading_id = [], date = real_of_int d, weight = w, body_fat_percentage = None,
               muscle_mass_percentage = None, source = ''Apple Health'' \<rparr>"

section \<open>Phase suggestion\<close>

datatype Phase = cut | maintenance | bulk

record PhaseSuggestion =
  suggestedPhase :: Phase
  ps_confidence :: real
  reasoning :: string
  calorieBalance :: real
  weightTrend :: real

text \<open>
  \<^verbatim>\<open>generateReasoning\<close>, the same in calculations.ts and PhaseDetector.swift.
\<close>

definition generateReasoning :: "Phase \<Rightarrow> real \<Rightarrow> real \<Rightarrow> string" where
  "generateReasoning phase calorieBalance' weightTrend' =
     (let calorieDesc = (if calorieBalance' < - 200 then ''deficit''
                         else if calorieBalance' > 200 then ''surplus'' else ''balanced'');
          weightDesc = (if weightTrend' < - (3/10) then ''losing''
                        else if weightTrend' > 3/10 then ''gaining'' else ''maintaining'')
      in case phase of
           cut \<Rightarrow> ''In a calorie '' @ calorieDesc @ '', '' @ weightDesc
                    @ '' weight. Suggests cutting phase.''
         | maintenance \<Rightarrow> ''Calories '' @ calorieDesc @ '', weight '' @ weightDesc
                    @ ''. Suggests maintenance.''
         | bulk \<Rightarrow> ''In a calorie '' @ calorieDesc @ '', '' @ weightDesc
                    @ '' weight. Suggests bulking phase.'')"

subsection \<open>calculations.ts\<close>

text \<open>
  \<^verbatim>\<open>scores\<close> is an object with the three keys \<^verbatim>\<open>cut\<close>, \<^verbatim>\<open>maintenance\<close>, \<^verbatim>\<open>bulk\<close>, created in
  that order. The two scoring blocks of \<^verbatim>\<open>suggestPhase\<close> update it in turn.
\<close>

definition scoreCalorieBalance :: "real \<Rightarrow> (Phase \<Rightarrow> real) \<Rightarrow> (Phase \<Rightarrow> real)" where
  "scoreCalorieBalance avgDailySurplus scores =
     (if avgDailySurplus < - 300 then scores(cut := scores cut + 1)
      else if avgDailySurplus > 300 then scores(bulk := scores bulk + 1)
      else
        (let scores1 = scores(maintenance := scores maintenance + 1)
         in if avgDailySurplus < - 200 then scores1(cut := scores1 cut + 1/2)
            else if avgDailySurplus > 200 then scores1(bulk := scores1 bulk + 1/2)
            else scores1))"

definition scoreWeightTrend :: "real \<Rightarrow> (Phase \<Rightarrow> real) \<Rightarrow> (Phase \<Rightarrow> real)" where
  "scoreWeightTrend avgWeeklyWeightChange scores =
     (if avgWeeklyWeightChange < - (1/2) then scores(cut := scores cut + 1)
      else if avgWeeklyWeightChange > 1/2 then scores(bulk := scores bulk + 1)
      else
        (let scores1 = scores(maintenance := scores maintenance + 1)
         in if avgWeeklyWeightChange < - (3/10) then scores1(cut := scores1 cut + 1/2)
            else if avgWeeklyWeightChange > 3/10 then scores1(bulk := scores1 bulk + 1/2)
            else scores1))"

text \<open>The combined score of each phase, after both blocks.\<close>

definition combinedScores :: "real \<Rightarrow> real \<Rightarrow> Phase \<Rightarrow> real" where
  "combinedScores avgDailySurplus avgWeeklyWeightChange =
     scoreWeightTrend avgWeeklyWeightChange (scoreCalorieBalance avgDailySurplus (\<lambda>_. 0))"

text \<open>
  \<^verbatim>\<open>Object.entries(scores)\<close> lists the keys in creation order;
  \<^verbatim>\<open>entries.sort((a, b) => b[1] - a[1])\<close> is a stable sort by descending score
  (\<^verbatim>\<open>Array.prototype.sort\<close> is stable), here the insertion sort \<^const>\<open>sort_key\<close> on the
  negated score. Reading \<^verbatim>\<open>entries[0][0]\<close> of an empty array would throw a TypeError.
\<close>

datatype TypeError = TypeError

definition objectEntries :: "(Phase \<Rightarrow> real) \<Rightarrow> (Phase \<times> real) list" where
  "objectEntries scores = [(cut, scores cut), (maintenance, scores maintenance), (bulk, scores bulk)]"

definition sortDescending :: "(Phase \<times> real) list \<Rightarrow> (Phase \<times> real) list" where
  "sortDescending entries = sort_key (\<lambda>e. - snd e) entries"

definition suggestPhase :: "real \<Rightarrow> real \<Rightarrow> TypeError + PhaseSuggestion" where
  "suggestPhase avgDailySurplus avgWeeklyWeightChange =
     (let scores = combinedScores avgDailySurplus avgWeeklyWeightChange;
          entries = sortDescending (objectEntries scores)
      in case entries of
           [] \<Rightarrow> Inl TypeError
         | (phase, maxScore) # _ \<Rightarrow>
             Inr \<lparr> suggestedPhase = phase,
                   ps_confidence = maxScore / 2,
                   reasoning = generateReasoning phase avgDailySurplus avgWeeklyWeightChange,
                   calorieBalance = avgDailySurplus,
                   weightTrend = avgWeeklyWeightChange \<rparr>)"

subsection \<open>PhaseDetector.swift\<close>

text \<open>
  \<^verbatim>\<open>scores\<close> is a \<^verbatim>\<open>[Phase: Double]\<close> dictionary and \<^verbatim>\<open>scores[k, default: 0] += x\<close> its update.
  A Swift dictionary iterates its keys in an order that the language leaves open (it depends
  on the hash seed of the process), so the iteration order is a parameter \<open>order\<close> of the
  model. \<^verbatim>\<open>sorted { $0.value > $1.value }\<close> orders the pairs by descending value; elements that
  compare equal keep the order in which they were iterated.
\<close>

definition addScore :: "Phase \<Rightarrow> real \<Rightarrow> (Phase \<rightharpoonup> real) \<Rightarrow> (Phase \<rightharpoonup> real)" where
  "addScore k x scores = scores(k \<mapsto> (case scores k of None \<Rightarrow> 0 | Some v \<Rightarrow> v) + x)"

definition initialScores :: "Phase \<rightharpoonup> real" where
  "initialScores = [cut \<mapsto> 0, maintenance \<mapsto> 0, bulk \<mapsto> 0]"

definition detectorScores :: "real \<Rightarrow> real \<Rightarrow> (Phase \<rightharpoonup> real)" where
  "detectorScores avgDailySurplus avgWeeklyWeightChange =
     (let scores0 = initialScores;
          scores1 =
            (if avgDailySurplus < - 300 then addScore cut 1 scores0
             else if avgDailySurplus > 300 then addScore bulk 1 scores0
             else
               (let m = addScore maintenance 1 scores0
                in if avgDailySurplus < - 200 then addScore cut (1/2) m
                   else if avgDailySurplus > 200 then addScore bulk (1/2) m
                   else m))
      in if avgWeeklyWeightChange < - (1/2) then addScore cut 1 scores1
         else if avgWeeklyWeightChange > 1/2 then addScore bulk 1 scores1
         else
           (let m = addScore maintenance 1 scores1
            in if avgWeeklyWeightChange < - (3/10) then addScore cut (1/2) m
               else if avgWeeklyWeightChange > 3/10 then addScore bulk (1/2) m
               else m))"

definition dictionaryPairs :: "Phase list \<Rightarrow> (Phase \<rightharpoonup> real) \<Rightarrow> (Phase \<times> real) list" where
  "dictionaryPairs order scores =
     concat (map (\<lambda>k. case scores k of None \<Rightarrow> [] | Some v \<Rightarrow> [(k, v)]) order)"

definition detectorSuggestPhase :: "Phase list \<Rightarrow> real \<Rightarrow> real \<Rightarrow> PhaseSuggestion" where
  "detectorSuggestPhase order avgDailySurplus avgWeeklyWeightChange =
     (let scores = detectorScores avgDailySurplus avgWeeklyWeightChange;
          sortedScores = sortDescending (dictionaryPairs order scores);
          phase = (case sortedScores of [] \<Rightarrow> maintenance | (k, _) # _ \<Rightarrow> k);
          maxScore = (case sortedScores of [] \<Rightarrow> 0 | (_, v) # _ \<Rightarrow> v)
      in \<lparr> suggestedPhase = phase,
           ps_confidence = maxScore / 2,
           reasoning = generateReasoning phase avgDailySurplus avgWeeklyWeightChange,
           calorieBalance = avgDailySurplus,
           weightTrend = avgWeeklyWeightChange \<rparr>)"

definition isPhaseAligned :: "Phase list \<Rightarrow> Phase \<Rightarrow> real \<Rightarrow> real \<Rightarrow> bool" where
  "isPhaseAligned order actualPhase avgDailySurplus avgWeeklyWeightChange =
     (let suggestion = detectorSuggestPhase order avgDailySurplus avgWeeklyWeightChange
      in suggestedPhase suggestion = actualPhase \<and> ps_confidence suggestion > 1/2)"

text \<open>The fixed order of the phases in which the specification breaks ties.\<close>

fun phaseRank :: "Phase \<Rightarrow> nat" where
  "phaseRank cut = 0"
| "phaseRank maintenance = 1"
| "phaseRank bulk = 2"

text \<open>
  The tie-break rule in the specification's words: the first phase, in the order cut,
  maintenance, bulk, whose score is the highest.
\<close>

definition firstHighest :: "(Phase \<Rightarrow> real) \<Rightarrow> Phase" where
  "firstHighest sc = (if sc cut \<ge> sc maintenance \<and> sc cut \<ge> sc bulk then cut
     else if sc maintenance \<ge> sc bulk then maintenance else bulk)"

section \<open>JavaScript values\<close>

text \<open>
  A JavaScript number as far as the reports need it: a finite value, the two infinities or
  NaN. A finite value is a real number that binary64 represents, and an arithmetic
  operation rounds its exact result to the nearest such number, ties to the even
  significand. The exponent range is not bounded here (the numbers of the reports are
  quotients and sums of 64-bit integers, far from overflow and from the subnormal range),
  and there is no signed zero: a zero divisor is \<open>+0\<close>, which is what the store returns for
  an integer 0 and what \<^verbatim>\<open>null\<close> converts to. Division by zero yields an infinity or NaN; it
  raises nothing.
\<close>

datatype jsnum = Num real | PosInfinity | NegInfinity | NaN

definition roundHalfEven :: "real \<Rightarrow> int" where
  "roundHalfEven y =
     (let f = \<lfloor>y\<rfloor>; d = y - of_int f
      in if d < 1/2 then f else if d > 1/2 then f + 1 else if even f then f else f + 1)"

definition two52 :: real where
  "two52 = 2 ^ 52"

text \<open>
  Rounding a positive number to 53 significant bits: scale it by powers of two into
  \<open>[2\<^sup>5\<^sup>2, 2\<^sup>5\<^sup>3)\<close>, round to the nearest integer, and scale back.
\<close>

function roundPositive :: "real \<Rightarrow> real" where
  "roundPositive x =
     (if x \<le> 0 then 0
      else if x \<ge> 2 * two52 then 2 * roundPositive (x / 2)
      else if x < two52 then roundPositive (2 * x) / 2
      else of_int (roundHalfEven x))"
  by pat_completeness auto
termination
proof (relation "measure (\<lambda>x. 2 * nat \<lceil>two52 / x\<rceil> + nat \<lceil>x / two52\<rceil>)", goal_cases)
  case 1
  show ?case by simp
next
  case (2 x)
  have pos: "0 < two52"
    by (simp add: two52_def)
  have half: "\<lceil>y / 2\<rceil> < \<lceil>y\<rceil>" if y: "1 < y" for y :: real
  proof -
    define n where "n = \<lceil>y\<rceil>"
    have n2: "n \<ge> 2" using y unfolding n_def by (simp add: le_ceiling_iff)
    have "y \<le> of_int n" unfolding n_def by (rule le_of_int_ceiling)
    then have "y / 2 \<le> of_int n / 2" by simp
    also have "\<dots> \<le> of_int (n - 1)" using n2 by simp
    finally have "\<lceil>y / 2\<rceil> \<le> n - 1" by (simp only: ceiling_le_iff)
    then show ?thesis unfolding n_def by simp
  qed
  have unit: "\<lceil>y\<rceil> = 1" if "0 < y" "y \<le> 1" for y :: real
    using that by (simp add: ceiling_eq_iff)
  have x: "x \<ge> 2 * two52" using 2 by simp
  have xp: "0 < x" using x pos by linarith
  have "1 < x / two52" using x pos by (simp add: field_simps)
  from half [OF this] have c1: "\<lceil>x / 2 / two52\<rceil> < \<lceil>x / two52\<rceil>"
    by (simp only: divide_divide_eq_left mult.commute)
  have a: "\<lceil>two52 / (x / 2)\<rceil> = 1"
    using x xp pos by (intro unit) (simp_all add: field_simps)
  have b: "\<lceil>two52 / x\<rceil> = 1"
    using x xp pos by (intro unit) (simp_all add: field_simps)
  show ?case
    by (simp only: in_measure a b) (use c1 in linarith)
next
  case (3 x)
  have pos: "0 < two52"
    by (simp add: two52_def)
  have half: "\<lceil>y / 2\<rceil> < \<lceil>y\<rceil>" if y: "1 < y" for y :: real
  proof -
    define n where "n = \<lceil>y\<rceil>"
    have n2: "n \<ge> 2" using y unfolding n_def by (simp add: le_ceiling_iff)
    have "y \<le> of_int n" unfolding n_def by (rule le_of_int_ceiling)
    then have "y / 2 \<le> of_int n / 2" by simp
    also have "\<dots> \<le> of_int (n - 1)" using n2 by simp
    finally have "\<lceil>y / 2\<rceil> \<le> n - 1" by (simp only: ceiling_le_iff)
    then show ?thesis unfolding n_def by simp
  qed
  have unit: "\<lceil>y\<rceil> = 1" if "0 < y" "y \<le> 1" for y :: real
    using that by (simp add: ceiling_eq_iff)
  have x: "0 < x" "x < two52" using 3 by simp_all
  have "1 < two52 / x" using x by (simp add: field_simps)
  from half [OF this] have c1: "\<lceil>two52 / (2 * x)\<rceil> < \<lceil>two52 / x\<rceil>"
    by (simp only: divide_divide_eq_left mult.commute)
  have "2 * x / two52 \<le> 2" using x pos by (simp add: field_simps)
  then have c2: "\<lceil>2 * x / two52\<rceil> \<le> 2" by (simp only: ceiling_le_iff of_int_numeral)
  have c3: "\<lceil>x / two52\<rceil> = 1"
    using x pos by (intro unit) (simp_all add: field_simps)
  show ?case
    by (simp only: in_measure c3) (use c1 c2 in linarith)
qed

declare roundPositive.simps [simp del]

definition binary64 :: "real \<Rightarrow> real" where
  "binary64 x = (if x < 0 then - roundPositive (- x) else roundPositive x)"

text \<open>
  The number a stored integer or \<^verbatim>\<open>null\<close> becomes in an arithmetic expression.
\<close>

definition toNumber :: "int option \<Rightarrow> jsnum" where
  "toNumber v = (case v of None \<Rightarrow> Num 0 | Some n \<Rightarrow> Num (binary64 (real_of_int n)))"

fun js_div :: "jsnum \<Rightarrow> jsnum \<Rightarrow> jsnum" where
  "js_div (Num a) (Num b) =
     (if b \<noteq> 0 then Num (binary64 (a / b))
      else if a > 0 then PosInfinity else if a < 0 then NegInfinity else NaN)"
| "js_div NaN _ = NaN"
| "js_div _ NaN = NaN"
| "js_div (Num a) _ = Num 0"
| "js_div PosInfinity (Num b) = (if b \<ge> 0 then PosInfinity else NegInfinity)"
| "js_div NegInfinity (Num b) = (if b \<ge> 0 then NegInfinity else PosInfinity)"
| "js_div _ _ = NaN"

fun js_mul :: "jsnum \<Rightarrow> jsnum \<Rightarrow> jsnum" where
  "js_mul (Num a) (Num b) = Num (binary64 (a * b))"
| "js_mul NaN _ = NaN"
| "js_mul _ NaN = NaN"
| "js_mul PosInfinity (Num b) =
     (if b > 0 then PosInfinity else if b < 0 then NegInfinity else NaN)"
| "js_mul NegInfinity (Num b) =
     (if b > 0 then NegInfinity else if b < 0 then PosInfinity else NaN)"
| "js_mul (Num a) PosInfinity =
     (if a > 0 then PosInfinity else if a < 0 then NegInfinity else NaN)"
| "js_mul (Num a) NegInfinity =
     (if a > 0 then NegInfinity else if a < 0 then PosInfinity else NaN)"
| "js_mul PosInfinity PosInfinity = PosInfinity"
| "js_mul NegInfinity NegInfinity = PosInfinity"
| "js_mul _ _ = NegInfinity"

fun js_add :: "jsnum \<Rightarrow> jsnum \<Rightarrow> jsnum" where
  "js_add (Num a) (Num b) = Num (binary64 (a + b))"
| "js_add NaN _ = NaN"
| "js_add _ NaN = NaN"
| "js_add PosInfinity NegInfinity = NaN"
| "js_add NegInfinity PosInfinity = NaN"
| "js_add PosInfinity _ = PosInfinity"
| "js_add _ PosInfinity = PosInfinity"
| "js_add NegInfinity _ = NegInfinity"
| "js_add _ NegInfinity = NegInfinity"


text \<open>
  Truthiness of an optional number and of an optional string: \<^verbatim>\<open>undefined\<close>, \<^verbatim>\<open>null\<close>,
  \<^verbatim>\<open>0\<close> and the empty string are falsy.
\<close>

definition truthyNum :: "'a::zero option \<Rightarrow> bool" where
  "truthyNum x = (case x of None \<Rightarrow> False | Some v \<Rightarrow> v \<noteq> 0)"

definition truthyStr :: "string option \<Rightarrow> bool" where
  "truthyStr x = (case x of None \<Rightarrow> False | Some s \<Rightarrow> s \<noteq> [])"

text \<open>\<^verbatim>\<open>x || 0\<close>, \<^verbatim>\<open>x || null\<close> and \<^verbatim>\<open>x || 'default'\<close>.\<close>

definition orZero :: "'a::zero option \<Rightarrow> 'a" where
  "orZero x = (case x of None \<Rightarrow> 0 | Some v \<Rightarrow> if v \<noteq> 0 then v else 0)"

definition orNull :: "'a::zero option \<Rightarrow> 'a option" where
  "orNull x = (if truthyNum x then x else None)"

definition strOrNull :: "string option \<Rightarrow> string option" where
  "strOrNull x = (if truthyStr x then x else None)"

definition strOr :: "string option \<Rightarrow> string \<Rightarrow> string" where
  "strOr x d = (case x of None \<Rightarrow> d | Some s \<Rightarrow> if s \<noteq> [] then s else d)"

subsection \<open>Numbers as text\<close>

fun showNat :: "nat \<Rightarrow> string" where
  "showNat n =
     (if n < 10 then [''0123456789'' ! n]
      else showNat (n div 10) @ [''0123456789'' ! (n mod 10)])"

text \<open>An integer in a template literal: \<^verbatim>\<open>`${n}`\<close>.\<close>

definition showInt :: "int \<Rightarrow> string" where
  "showInt n = (if n < 0 then ''-'' @ showNat (nat (- n)) else showNat (nat n))"

text \<open>
  \<^verbatim>\<open>n.toLocaleString()\<close> of an integer in the runtime's default locale (en-US): the digits in
  groups of three, separated by commas.
\<close>

fun groupThousands :: "string \<Rightarrow> string" where
  "groupThousands (a # b # c # d # ds) = a # b # c # CHR '','' # groupThousands (d # ds)"
| "groupThousands ds = ds"

definition toLocaleString :: "int \<Rightarrow> string" where
  "toLocaleString n =
     (if n < 0 then ''-'' else '''') @ rev (groupThousands (rev (showNat (nat \<bar>n\<bar>))))"

text \<open>
  \<^verbatim>\<open>x.toFixed(1)\<close>: the sign, then the integer \<open>n\<close> for which \<open>n / 10\<close> is closest to \<open>\<bar>x\<bar>\<close>
  (the larger one of two), written with one digit after the point. (Values from
  \<open>10\<^sup>2\<^sup>1\<close> on print in exponent notation in JavaScript; they do not occur here.)
\<close>

definition toFixed1 :: "real \<Rightarrow> string" where
  "toFixed1 x =
     (let n = nat \<lfloor>\<bar>x\<bar> * 10 + 1/2\<rfloor>
      in (if x < 0 then ''-'' else '''') @ showNat (n div 10) @ ''.'' @ showNat (n mod 10))"

fun jsToFixed1 :: "jsnum \<Rightarrow> string" where
  "jsToFixed1 (Num x) = toFixed1 x"
| "jsToFixed1 PosInfinity = ''Infinity''"
| "jsToFixed1 NegInfinity = ''-Infinity''"
| "jsToFixed1 NaN = ''NaN''"

text \<open>\<^verbatim>\<open>s.trim()\<close> for the white space that occurs in the reports.\<close>

definition isSpace :: "char \<Rightarrow> bool" where
  "isSpace c = (c = CHR '' '' \<or> c = CHR 0x0A \<or> c = CHR 0x0D \<or> c = CHR 0x09)"

definition trim :: "string \<Rightarrow> string" where
  "trim s = rev (dropWhile isSpace (rev (dropWhile isSpace s)))"

subsection \<open>Exceptions\<close>

text \<open>A thrown error, with its message.\<close>

datatype Thrown = Thrown string

subsection \<open>Dates\<close>

text \<open>
  The time value of a \<^verbatim>\<open>Date\<close> is a number of milliseconds since the epoch, or NaN for an
  invalid date (\<open>None\<close>). The server runs in UTC, so local time is UTC. The calendar is the
  proleptic Gregorian one, counted in days since 1970-01-01.
\<close>

definition msPerDay :: int where
  "msPerDay = 86400000"

definition daysFromCivil :: "int \<Rightarrow> int \<Rightarrow> int \<Rightarrow> int" where
  "daysFromCivil y m d =
     (let y' = (if m \<le> 2 then y - 1 else y);
          era = y' div 400;
          yoe = y' - era * 400;
          doy = (153 * (if m > 2 then m - 3 else m + 9) + 2) div 5 + d - 1;
          doe = yoe * 365 + yoe div 4 - yoe div 100 + doy
      in era * 146097 + doe - 719468)"

definition civilFromDays :: "int \<Rightarrow> int \<times> int \<times> int" where
  "civilFromDays z =
     (let z' = z + 719468;
          era = z' div 146097;
          doe = z' - era * 146097;
          yoe = (doe - doe div 1460 + doe div 36524 - doe div 146096) div 365;
          doy = doe - (365 * yoe + yoe div 4 - yoe div 100);
          mp = (5 * doy + 2) div 153;
          d = doy - (153 * mp + 2) div 5 + 1;
          m = (if mp < 10 then mp + 3 else mp - 9);
          y = yoe + era * 400 + (if m \<le> 2 then 1 else 0)
      in (y, m, d))"

definition timeClip :: "int \<Rightarrow> int option" where
  "timeClip t = (if \<bar>t\<bar> \<le> 8640000000000000 then Some t else None)"

text \<open>
  \<^verbatim>\<open>d.setDate(d.getDate() + n)\<close>: the time value moves by \<open>n\<close> days. The result is an invalid
  date when the date was invalid, when \<open>n\<close> is NaN (\<open>None\<close>), or when it leaves the range of
  time values.
\<close>

definition addDate :: "int option \<Rightarrow> int option \<Rightarrow> int option" where
  "addDate t n = (case (t, n) of
       (Some t', Some n') \<Rightarrow> timeClip (t' + n' * msPerDay)
     | _ \<Rightarrow> None)"

text \<open>
  \<^verbatim>\<open>toISOString()\<close> of a valid time value: \<^verbatim>\<open>YYYY-MM-DDTHH:mm:ss.sssZ\<close>, with a sign and six
  digits for a year outside 0 to 9999.
\<close>

definition pad :: "nat \<Rightarrow> int \<Rightarrow> string" where
  "pad w n = (let s = showNat (nat n) in replicate (w - length s) CHR ''0'' @ s)"

definition toISOString :: "int \<Rightarrow> string" where
  "toISOString t =
     (let (y, m, d) = civilFromDays (t div msPerDay);
          ms = t mod msPerDay;
          year = (if 0 \<le> y \<and> y \<le> 9999 then pad 4 y
                  else (if y < 0 then ''-'' else ''+'') @ pad 6 \<bar>y\<bar>)
      in year @ ''-'' @ pad 2 m @ ''-'' @ pad 2 d @ ''T''
         @ pad 2 (ms div 3600000) @ '':'' @ pad 2 (ms div 60000 mod 60) @ '':''
         @ pad 2 (ms div 1000 mod 60) @ ''.'' @ pad 3 (ms mod 1000) @ ''Z'')"

text \<open>
  \<^verbatim>\<open>new Date(s)\<close> parses its argument with \<^verbatim>\<open>Date.parse\<close>, which the functions below take as a
  parameter. \<open>parseISO\<close> is \<^verbatim>\<open>Date.parse\<close> on the ISO forms that the application exchanges:
  a date \<^verbatim>\<open>YYYY-MM-DD\<close> (midnight UTC) and the time stamps \<^verbatim>\<open>YYYY-MM-DDTHH:mm:ssZ\<close> and
  \<^verbatim>\<open>YYYY-MM-DDTHH:mm:ss.sssZ\<close>, each of a day that exists. Text of another form, which
  engines read in ways of their own, is outside it.
\<close>

definition digitValue :: "char \<Rightarrow> int option" where
  "digitValue c =
     (if CHR ''0'' \<le> c \<and> c \<le> CHR ''9'' then Some (int (of_char c) - 48) else None)"

fun digitsValue :: "int \<Rightarrow> string \<Rightarrow> int option" where
  "digitsValue acc [] = Some acc"
| "digitsValue acc (c # cs) =
     (case digitValue c of None \<Rightarrow> None | Some v \<Rightarrow> digitsValue (acc * 10 + v) cs)"

definition field :: "nat \<Rightarrow> nat \<Rightarrow> string \<Rightarrow> int option" where
  "field from len s = digitsValue 0 (take len (drop from s))"

definition daysInMonth :: "int \<Rightarrow> int \<Rightarrow> int" where
  "daysInMonth y m =
     (if m = 2 then (if y mod 400 = 0 \<or> (y mod 4 = 0 \<and> y mod 100 \<noteq> 0) then 29 else 28)
      else if m = 4 \<or> m = 6 \<or> m = 9 \<or> m = 11 then 30 else 31)"

definition parseDay :: "string \<Rightarrow> int option" where
  "parseDay s =
     (case (field 0 4 s, field 5 2 s, field 8 2 s) of
        (Some y, Some m, Some d) \<Rightarrow>
          if s ! 4 = CHR ''-'' \<and> s ! 7 = CHR ''-'' \<and> 1 \<le> m \<and> m \<le> 12
             \<and> 1 \<le> d \<and> d \<le> daysInMonth y m
          then Some (daysFromCivil y m d) else None
      | _ \<Rightarrow> None)"

definition parseTime :: "string \<Rightarrow> int option" where
  "parseTime s =
     (case (field 11 2 s, field 14 2 s, field 17 2 s) of
        (Some h, Some mi, Some sec) \<Rightarrow>
          if s ! 10 = CHR ''T'' \<and> s ! 13 = CHR '':'' \<and> s ! 16 = CHR '':''
             \<and> h \<le> 23 \<and> mi \<le> 59 \<and> sec \<le> 59
          then Some (h * 3600000 + mi * 60000 + sec * 1000) else None
      | _ \<Rightarrow> None)"

definition parseISO :: "string \<Rightarrow> int option" where
  "parseISO s =
     (if length s = 10 then map_option (\<lambda>d. d * msPerDay) (parseDay s)
      else if length s = 20 \<and> s ! 19 = CHR ''Z'' then
        (case (parseDay s, parseTime s) of
           (Some d, Some t) \<Rightarrow> Some (d * msPerDay + t) | _ \<Rightarrow> None)
      else if length s = 24 \<and> s ! 19 = CHR ''.'' \<and> s ! 23 = CHR ''Z'' then
        (case (parseDay s, parseTime s, field 20 3 s) of
           (Some d, Some t, Some ms) \<Rightarrow> Some (d * msPerDay + t + ms) | _ \<Rightarrow> None)
      else None)"

section \<open>The weeks table (schema.sql, queries.ts)\<close>

text \<open>
  A row of \<^verbatim>\<open>weeks\<close>. The targets, the actuals and the body metrics may be null: schema.sql
  puts no NOT NULL on them, and \<^verbatim>\<open>updateWeek\<close> and \<^verbatim>\<open>updateWeekTargets\<close> bind what they are
  given. The columns that schema.sql declares INTEGER are integers, those it declares REAL
  are reals, dates and timestamps are text.
\<close>

record WeekRecord =
  week_id :: string
  start_date :: string
  end_date :: string
  target_calories :: "int option"
  target_protein :: "int option"
  target_steps :: "int option"
  target_cardio :: "int option"
  phase :: string
  total_steps :: "int option"
  total_calories :: "int option"
  total_protein :: "int option"
  total_cardio_calories :: "int option"
  average_weight :: "real option"
  week_over_week_weight_change :: "real option"
  week_body_fat_percentage :: "real option"
  body_fat_change :: "real option"
  week_muscle_mass_percentage :: "real option"
  muscle_mass_change :: "real option"
  is_complete :: int
  completed_at :: "string option"
  created_at :: string
  updated_at :: string

text \<open>
  The argument of \<^verbatim>\<open>createWeek\<close>, a \<^verbatim>\<open>Partial<WeekRecord>\<close>: every field may be missing. The
  three identity fields are bound as they are, and the calls modelled here supply them.
\<close>

record WeekInput =
  in_id :: string
  in_start_date :: string
  in_end_date :: string
  in_target_calories :: "int option"
  in_target_protein :: "int option"
  in_target_steps :: "int option"
  in_target_cardio :: "int option"
  in_phase :: "string option"
  in_total_steps :: "int option"
  in_total_calories :: "int option"
  in_total_protein :: "int option"
  in_total_cardio_calories :: "int option"
  in_average_weight :: "real option"
  in_week_over_week_weight_change :: "real option"
  in_body_fat_percentage :: "real option"
  in_body_fat_change :: "real option"
  in_muscle_mass_percentage :: "real option"
  in_muscle_mass_change :: "real option"
  in_is_complete :: "int option"
  in_completed_at :: "string option"

text \<open>
  \<^verbatim>\<open>getWeekByStartDate\<close>: \<^verbatim>\<open>SELECT * FROM weeks WHERE start_date = ? LIMIT 1\<close>. The table is
  the list of its rows in insertion order.
\<close>

definition getWeekByStartDate :: "WeekRecord list \<Rightarrow> string \<Rightarrow> WeekRecord option" where
  "getWeekByStartDate rows startDate = find (\<lambda>w. start_date w = startDate) rows"

text \<open>
  The views \<^verbatim>\<open>current_week\<close> and \<^verbatim>\<open>completed_weeks\<close>, both ordered by start date, newest
  first, and the two queries on them. Weeks with the same start date stay in insertion
  order.
\<close>

definition newestFirst :: "WeekRecord list \<Rightarrow> WeekRecord list" where
  "newestFirst rows = rev (sort_key start_date (rev rows))"

definition current_week :: "WeekRecord list \<Rightarrow> WeekRecord list" where
  "current_week rows = take 1 (newestFirst (filter (\<lambda>w. is_complete w = 0) rows))"

definition completed_weeks :: "WeekRecord list \<Rightarrow> WeekRecord list" where
  "completed_weeks rows = newestFirst (filter (\<lambda>w. is_complete w = 1) rows)"

definition getCurrentWeek :: "WeekRecord list \<Rightarrow> WeekRecord option" where
  "getCurrentWeek rows = (case take 1 (current_week rows) of [] \<Rightarrow> None | w # _ \<Rightarrow> Some w)"

definition getWeeks :: "WeekRecord list \<Rightarrow> nat \<Rightarrow> nat \<Rightarrow> WeekRecord list" where
  "getWeeks rows limit offset = take limit (drop offset (completed_weeks rows))"

text \<open>
  \<^verbatim>\<open>createWeek\<close>: one INSERT, with the values bound as the source binds them. \<open>now\<close> is the
  time stamp \<^verbatim>\<open>new Date().toISOString()\<close>. The insert fails when a row with the same primary
  key exists.
\<close>

datatype D1Error = ConstraintFailed

definition boundWeek :: "string \<Rightarrow> WeekInput \<Rightarrow> WeekRecord" where
  "boundWeek now week =
     \<lparr> week_id = in_id week,
       start_date = in_start_date week,
       end_date = in_end_date week,
       target_calories = Some (orZero (in_target_calories week)),
       target_protein = Some (orZero (in_target_protein week)),
       target_steps = Some (orZero (in_target_steps week)),
       target_cardio = Some (orZero (in_target_cardio week)),
       phase = strOr (in_phase week) ''maintenance'',
       total_steps = orNull (in_total_steps week),
       total_calories = orNull (in_total_calories week),
       total_protein = orNull (in_total_protein week),
       total_cardio_calories = orNull (in_total_cardio_calories week),
       average_weight = orNull (in_average_weight week),
       week_over_week_weight_change = orNull (in_week_over_week_weight_change week),
       week_body_fat_percentage = orNull (in_body_fat_percentage week),
       body_fat_change = orNull (in_body_fat_change week),
       week_muscle_mass_percentage = orNull (in_muscle_mass_percentage week),
       muscle_mass_change = orNull (in_muscle_mass_change week),
       is_complete = orZero (in_is_complete week),
       completed_at = strOrNull (in_completed_at week),
       created_at = now,
       updated_at = now \<rparr>"

definition createWeek :: "WeekRecord list \<Rightarrow> string \<Rightarrow> WeekInput \<Rightarrow> D1Error + WeekRecord list" where
  "createWeek rows now week =
     (if in_id week \<in> set (map week_id rows) then Inl ConstraintFailed
      else Inr (rows @ [boundWeek now week]))"

section \<open>The weight readings table and the server's rolling average (queries.ts)\<close>

text \<open>
  \<^verbatim>\<open>getWeightReadings\<close>, over the rows of the table:
  \<^verbatim>\<open>SELECT * FROM weight_readings WHERE date >= ? AND date <= ? ORDER BY date ASC\<close>.
  The \<^verbatim>\<open>date\<close> column is TEXT, and SQLite compares text byte by byte.
\<close>

definition getWeightReadings ::
  "('d::linorder) WeightReading list \<Rightarrow> 'd \<Rightarrow> 'd \<Rightarrow> 'd WeightReading list" where
  "getWeightReadings rows startDate endDate =
     sort_key date (filter (\<lambda>r. date r \<ge> startDate \<and> date r \<le> endDate) rows)"

text \<open>
  \<^verbatim>\<open>calculateRollingAverage\<close> and the object it resolves to (\<^verbatim>\<open>null\<close> is \<open>None\<close>). The target
  date is text; \<open>windowDays\<close> is the number the route passes, an integer or NaN (\<open>None\<close>) from
  \<^verbatim>\<open>parseInt\<close>. The lower bound of the query is the text \<^verbatim>\<open>windowStart.toISOString()\<close>, which
  throws a RangeError on an invalid date; the upper bound is the target date as given. The
  average and the confidence quotient are real numbers, as in the client's calculator; a
  window of 0 days divides the count by zero.
\<close>

record RollingAverage =
  ra_average :: "real option"
  ra_confidence :: jsnum
  ra_readingCount :: nat

definition calculateRollingAverage ::
  "(string \<Rightarrow> int option) \<Rightarrow> string WeightReading list \<Rightarrow> string \<Rightarrow> int option
     \<Rightarrow> Thrown + RollingAverage" where
  "calculateRollingAverage parse rows targetDate windowDays =
     (let date' = parse targetDate;
          windowStart = addDate date' (map_option (\<lambda>w. - w + 1) windowDays)
      in case windowStart of
           None \<Rightarrow> Inl (Thrown ''RangeError: Invalid time value'')
         | Some start \<Rightarrow>
             (let readings = getWeightReadings rows (toISOString start) targetDate
              in if length readings < 3 then
                   Inr \<lparr> ra_average = None, ra_confidence = Num 0,
                         ra_readingCount = length readings \<rparr>
                 else
                   let sum = foldl (\<lambda>acc r. acc + weight r) 0 readings;
                       avg = sum / real (length readings);
                       conf = (case windowDays of
                                 None \<Rightarrow> NaN
                               | Some w \<Rightarrow> if w = 0 then PosInfinity
                                           else Num (real (length readings) / real_of_int w))
                   in Inr \<lparr> ra_average = Some avg, ra_confidence = conf,
                            ra_readingCount = length readings \<rparr>))"

section \<open>The analysis tools (tools/*.ts)\<close>

text \<open>
  A tool resolves to \<^verbatim>\<open>{ content: [{ type: 'text', text }] }\<close> or throws. D1 rejects a bound
  parameter that is \<^verbatim>\<open>undefined\<close> with a type error, so a tool that binds a missing argument
  throws.
\<close>

record ContentBlock =
  block_type :: string
  block_text :: string

type_synonym ToolResult = "ContentBlock list"

definition textContent :: "string \<Rightarrow> Thrown + ToolResult" where
  "textContent t = Inr [\<lparr> block_type = ''text'', block_text = t \<rparr>]"

definition d1TypeError :: "Thrown + ToolResult" where
  "d1TypeError = Inl (Thrown ''D1_TYPE_ERROR'')"

text \<open>The \<^verbatim>\<open>arguments\<close> object of a tool call; a field that is absent is \<^verbatim>\<open>undefined\<close>.\<close>

record ToolArgs =
  startDate :: "string option"
  endDate :: "string option"
  limit :: "nat option"
  offset :: "nat option"

definition showArg :: "string option \<Rightarrow> string" where
  "showArg a = (case a of None \<Rightarrow> ''undefined'' | Some s \<Rightarrow> s)"

subsection \<open>get_week_summary\<close>

text \<open>
  The adherence of one metric as the templates compute it:
  \<^verbatim>\<open>(week.total_x / week.target_x) * 100\<close>, for a total that is a number and a target that
  may be null.
\<close>

definition adherencePercent :: "int \<Rightarrow> int option \<Rightarrow> jsnum" where
  "adherencePercent actual target =
     js_mul (js_div (toNumber (Some actual)) (toNumber target)) (Num 100)"

text \<open>
  \<^verbatim>\<open>${total || 'N/A'}\<close>, \<^verbatim>\<open>${total?.toLocaleString() || 'N/A'}\<close> and
  \<^verbatim>\<open>${total ? `(${((total / target) * 100).toFixed(1)}%)` : ''}\<close>.
\<close>

definition actualOrNA :: "int option \<Rightarrow> string" where
  "actualOrNA actual = (case actual of
       None \<Rightarrow> ''N/A''
     | Some n \<Rightarrow> if n \<noteq> 0 then showInt n else ''N/A'')"

definition localeOrNA :: "int option \<Rightarrow> string" where
  "localeOrNA actual = (case actual of
       None \<Rightarrow> ''N/A''
     | Some n \<Rightarrow> if toLocaleString n \<noteq> [] then toLocaleString n else ''N/A'')"

definition adherenceSuffix :: "int option \<Rightarrow> int option \<Rightarrow> string" where
  "adherenceSuffix actual target = (case actual of
       None \<Rightarrow> []
     | Some n \<Rightarrow> if n \<noteq> 0 then ''('' @ jsToFixed1 (adherencePercent n target) @ ''%)'' else [])"

definition caloriesLine :: "WeekRecord \<Rightarrow> string" where
  "caloriesLine week = ''- Calories: '' @ actualOrNA (total_calories week) @ '' kcal ''
     @ adherenceSuffix (total_calories week) (target_calories week)"

definition proteinLine :: "WeekRecord \<Rightarrow> string" where
  "proteinLine week = ''- Protein: '' @ actualOrNA (total_protein week) @ ''g ''
     @ adherenceSuffix (total_protein week) (target_protein week)"

definition stepsLine :: "WeekRecord \<Rightarrow> string" where
  "stepsLine week = ''- Steps: '' @ localeOrNA (total_steps week) @ '' ''
     @ adherenceSuffix (total_steps week) (target_steps week)"

definition cardioLine :: "WeekRecord \<Rightarrow> string" where
  "cardioLine week = ''- Cardio: '' @ actualOrNA (total_cardio_calories week) @ '' kcal ''
     @ adherenceSuffix (total_cardio_calories week) (target_cardio week)"

text \<open>The body-composition lines: a value, and a signed change in brackets.\<close>

definition signPrefix :: "real \<Rightarrow> string" where
  "signPrefix x = (if x \<ge> 0 then ''+'' else [])"

definition fixedOrNA :: "real option \<Rightarrow> string \<Rightarrow> string" where
  "fixedOrNA v unit = (case v of
       None \<Rightarrow> ''N/A''
     | Some x \<Rightarrow> if x \<noteq> 0 then toFixed1 x @ unit else ''N/A'')"

definition signedOrNA :: "real option \<Rightarrow> string" where
  "signedOrNA v = (case v of
       None \<Rightarrow> ''N/A''
     | Some x \<Rightarrow> if x \<noteq> 0 then signPrefix x @ toFixed1 x @ '' lbs'' else ''N/A'')"

definition changeSuffix :: "real option \<Rightarrow> string" where
  "changeSuffix v = (case v of
       None \<Rightarrow> []
     | Some x \<Rightarrow> if x \<noteq> 0 then '' ('' @ signPrefix x @ toFixed1 x @ ''%)'' else [])"

definition statusLine :: "WeekRecord \<Rightarrow> string" where
  "statusLine week = ''Status: '' @
     (if is_complete week \<noteq> 0
      then ''Completed on '' @ (case completed_at week of None \<Rightarrow> ''null'' | Some t \<Rightarrow> t)
      else ''In Progress'')"

definition newline :: string where
  "newline = [CHR 0x0A]"

text \<open>
  A target in a template literal (\<^verbatim>\<open>null\<close> prints as such), and the whole summary. Calling
  \<^verbatim>\<open>toLocaleString()\<close> on a step target that is null throws a TypeError.
\<close>

definition showTarget :: "int option \<Rightarrow> string" where
  "showTarget target = (case target of None \<Rightarrow> ''null'' | Some n \<Rightarrow> showInt n)"

definition weekSummaryText :: "string \<Rightarrow> WeekRecord \<Rightarrow> Thrown + string" where
  "weekSummaryText startDate' week =
   (case target_steps week of
      None \<Rightarrow> Inl (Thrown ''TypeError: Cannot read properties of null'')
    | Some steps \<Rightarrow> Inr (trim (concat (map (\<lambda>l. l @ newline)
     [ [],
       ''Week Summary: '' @ startDate',
       ''Phase: '' @ phase week,
       [],
       ''TARGETS:'',
       ''- Calories: '' @ showTarget (target_calories week) @ '' kcal'',
       ''- Protein: '' @ showTarget (target_protein week) @ ''g'',
       ''- Steps: '' @ toLocaleString steps,
       ''- Cardio: '' @ showTarget (target_cardio week) @ '' kcal'',
       [],
       ''ACTUALS:'',
       caloriesLine week,
       proteinLine week,
       stepsLine week,
       cardioLine week,
       [],
       ''BODY COMPOSITION:'',
       ''- Average Weight: '' @ fixedOrNA (average_weight week) '' lbs'',
       ''- Week-over-Week Change: '' @ signedOrNA (week_over_week_weight_change week),
       ''- Body Fat: '' @ fixedOrNA (week_body_fat_percentage week) ''%''
          @ changeSuffix (body_fat_change week),
       ''- Muscle Mass: '' @ fixedOrNA (week_muscle_mass_percentage week) ''%''
          @ changeSuffix (muscle_mass_change week),
       [],
       statusLine week ]))))"

definition executeWeekSummary :: "WeekRecord list \<Rightarrow> ToolArgs \<Rightarrow> Thrown + ToolResult" where
  "executeWeekSummary rows args =
     (case startDate args of
        None \<Rightarrow> d1TypeError
      | Some d \<Rightarrow>
          (case getWeekByStartDate rows d of
             None \<Rightarrow> textContent (''No week found starting on '' @ d)
           | Some week \<Rightarrow>
               (case weekSummaryText d week of
                  Inl e \<Rightarrow> Inl e
                | Inr summary \<Rightarrow> textContent summary)))"

subsection \<open>The adherence block of analyze_phases\<close>






subsection \<open>The other tools\<close>

text \<open>
  Each of the other tools answers an empty result with a fixed sentence and a non-empty
  one with a report. The text of those reports is a parameter of the model.
\<close>

record Reports =
  weightTrendReport :: "string \<Rightarrow> string \<Rightarrow> string WeightReading list \<Rightarrow> string"
  weeklyHistoryReport :: "nat \<Rightarrow> WeekRecord list \<Rightarrow> string"
  phaseAnalysisReport :: "string option \<Rightarrow> string option \<Rightarrow> WeekRecord list \<Rightarrow> string"
  bodyCompositionReport :: "string \<Rightarrow> string \<Rightarrow> string WeightReading list \<Rightarrow> string"
  currentWeekReport :: "WeekRecord \<Rightarrow> string"

definition executeWeightTrend ::
  "Reports \<Rightarrow> string WeightReading list \<Rightarrow> ToolArgs \<Rightarrow> Thrown + ToolResult" where
  "executeWeightTrend rep rows args =
     (case (startDate args, endDate args) of
        (Some s, Some e) \<Rightarrow>
          (let readings = getWeightReadings rows s e
           in if length readings = 0
              then textContent (''No weight readings found between '' @ s @ '' and '' @ e)
              else textContent (weightTrendReport rep s e readings))
      | _ \<Rightarrow> d1TypeError)"

definition executeWeeklyHistory ::
  "Reports \<Rightarrow> WeekRecord list \<Rightarrow> ToolArgs \<Rightarrow> Thrown + ToolResult" where
  "executeWeeklyHistory rep rows args =
     (let limit' = (if truthyNum (limit args) then orZero (limit args) else 10);
          offset' = orZero (offset args);
          weeks = getWeeks rows limit' offset'
      in if length weeks = 0 then textContent ''No completed weeks found''
         else textContent (weeklyHistoryReport rep offset' weeks))"

text \<open>A comparison of a string with \<^verbatim>\<open>undefined\<close> is false.\<close>

definition geArg :: "string \<Rightarrow> string option \<Rightarrow> bool" where
  "geArg s a = (case a of None \<Rightarrow> False | Some b \<Rightarrow> s \<ge> b)"

definition leArg :: "string \<Rightarrow> string option \<Rightarrow> bool" where
  "leArg s a = (case a of None \<Rightarrow> False | Some b \<Rightarrow> s \<le> b)"

definition executePhaseAnalysis ::
  "Reports \<Rightarrow> WeekRecord list \<Rightarrow> ToolArgs \<Rightarrow> Thrown + ToolResult" where
  "executePhaseAnalysis rep rows args =
     (let allWeeks = getWeeks rows 100 0;
          weeks = filter (\<lambda>w. geArg (start_date w) (startDate args)
                              \<and> leArg (start_date w) (endDate args)) allWeeks
      in if length weeks = 0
         then textContent (''No weeks found between '' @ showArg (startDate args)
                           @ '' and '' @ showArg (endDate args))
         else textContent (phaseAnalysisReport rep (startDate args) (endDate args) weeks))"

definition executeBodyComposition ::
  "Reports \<Rightarrow> string WeightReading list \<Rightarrow> ToolArgs \<Rightarrow> Thrown + ToolResult" where
  "executeBodyComposition rep rows args =
     (case (startDate args, endDate args) of
        (Some s, Some e) \<Rightarrow>
          (let readings = getWeightReadings rows s e;
               compReadings = filter (\<lambda>r. body_fat_percentage r \<noteq> None
                                           \<or> muscle_mass_percentage r \<noteq> None) readings
           in if length compReadings = 0
              then textContent (''No body composition data found between '' @ s @ '' and '' @ e)
              else textContent (bodyCompositionReport rep s e compReadings))
      | _ \<Rightarrow> d1TypeError)"

definition executeCurrentWeek :: "Reports \<Rightarrow> WeekRecord list \<Rightarrow> Thrown + ToolResult" where
  "executeCurrentWeek rep rows =
     (case getCurrentWeek rows of
        None \<Rightarrow> textContent ''No current week in progress. Start a new week to track metrics.''
      | Some week \<Rightarrow> textContent (currentWeekReport rep week))"

section \<open>The server (auth.ts, index.ts, api/routes.ts)\<close>

datatype ResponseBody =
    ErrorJson string
  | ToolCatalog "string list"
  | ToolOutput ToolResult
  | ToolFailure string string

record Response =
  status :: nat
  body :: ResponseBody

definition json :: "ResponseBody \<Rightarrow> nat \<Rightarrow> Response" where
  "json b s = \<lparr> status = s, body = b \<rparr>"

record Env =
  API_KEY :: "string option"

text \<open>\<^verbatim>\<open>s.split(c)\<close> for a one-character separator.\<close>

fun splitOn :: "char \<Rightarrow> string \<Rightarrow> string list" where
  "splitOn c [] = [[]]"
| "splitOn c (x # xs) =
     (if x = c then [] # splitOn c xs
      else (case splitOn c xs of [] \<Rightarrow> [[x]] | p # ps \<Rightarrow> (x # p) # ps))"

text \<open>
  \<^verbatim>\<open>authMiddleware\<close>, applied to the environment and the value of the Authorization header.
  \<open>None\<close> stands for the call of \<^verbatim>\<open>next()\<close>, \<open>Some r\<close> for the response \<open>r\<close> returned
  instead.
\<close>

definition authMiddleware :: "Env \<Rightarrow> string option \<Rightarrow> Response option" where
  "authMiddleware env authHeader =
     (case authHeader of
        None \<Rightarrow> Some (json (ErrorJson ''Missing Authorization header'') 401)
      | Some h \<Rightarrow>
          if h = [] then Some (json (ErrorJson ''Missing Authorization header'') 401)
          else
            (let parts = splitOn CHR '' '' h;
                 scheme = (case parts of [] \<Rightarrow> None | a # _ \<Rightarrow> Some a);
                 token = (case parts of _ # b # _ \<Rightarrow> Some b | _ \<Rightarrow> None)
             in if scheme \<noteq> Some ''Bearer'' \<or> \<not> truthyStr token
                then Some (json (ErrorJson
                       ''Invalid Authorization header format. Use: Bearer <token>'') 401)
                else if \<not> truthyStr (API_KEY env)
                then Some (json (ErrorJson ''Server configuration error: API_KEY not set'') 500)
                else if token \<noteq> API_KEY env
                then Some (json (ErrorJson ''Invalid API key'') 403)
                else None))"

subsection \<open>The tool endpoint\<close>

record Database =
  weeks :: "WeekRecord list"
  weight_readings :: "string WeightReading list"

text \<open>
  The parsed body of a request to \<^verbatim>\<open>POST /mcp\<close>: \<^verbatim>\<open>body.method\<close>, \<^verbatim>\<open>body.params?.name\<close> and
  \<^verbatim>\<open>body.params?.arguments\<close>.
\<close>

record McpBody =
  rpc_method :: string
  tool_name :: "string option"
  arguments :: "ToolArgs option"

definition noArgs :: ToolArgs where
  "noArgs = \<lparr> startDate = None, endDate = None, limit = None, offset = None \<rparr>"

definition toolNames :: "string list" where
  "toolNames = [''get_week_summary'', ''get_weight_trend'', ''get_weekly_history'',
                ''analyze_phases'', ''get_body_composition'', ''get_current_week'']"

text \<open>The \<^verbatim>\<open>try\<close> block around a tool: its result as JSON, or the 500 of the \<^verbatim>\<open>catch\<close>.\<close>

definition respond :: "Thrown + ToolResult \<Rightarrow> Response" where
  "respond r = (case r of
       Inr result \<Rightarrow> json (ToolOutput result) 200
     | Inl (Thrown message) \<Rightarrow> json (ToolFailure ''Tool execution failed'' message) 500)"

definition mcpHandler :: "Reports \<Rightarrow> Database \<Rightarrow> McpBody \<Rightarrow> Response" where
  "mcpHandler rep db b =
     (if rpc_method b = ''tools/list'' then json (ToolCatalog toolNames) 200
      else if rpc_method b = ''tools/call'' then
        (let toolName = tool_name b;
             args = (case arguments b of None \<Rightarrow> noArgs | Some a \<Rightarrow> a)
         in if toolName = Some ''get_week_summary'' then
              respond (executeWeekSummary (weeks db) args)
            else if toolName = Some ''get_weight_trend'' then
              respond (executeWeightTrend rep (weight_readings db) args)
            else if toolName = Some ''get_weekly_history'' then
              respond (executeWeeklyHistory rep (weeks db) args)
            else if toolName = Some ''analyze_phases'' then
              respond (executePhaseAnalysis rep (weeks db) args)
            else if toolName = Some ''get_body_composition'' then
              respond (executeBodyComposition rep (weight_readings db) args)
            else if toolName = Some ''get_current_week'' then
              respond (executeCurrentWeek rep (weeks db))
            else json (ErrorJson (''Unknown tool: '' @ showArg toolName)) 400)
      else json (ErrorJson ''Unsupported MCP method'') 400)"

text \<open>\<^verbatim>\<open>app.post('/mcp', authMiddleware, handler)\<close>: the handler runs after the middleware.\<close>

definition postMcp :: "Env \<Rightarrow> Reports \<Rightarrow> Database \<Rightarrow> string option \<Rightarrow> McpBody \<Rightarrow> Response" where
  "postMcp env rep db authHeader b =
     (case authMiddleware env authHeader of
        Some rejection \<Rightarrow> rejection
      | None \<Rightarrow> mcpHandler rep db b)"

subsection \<open>Routing\<close>

text \<open>
  The application registers its handlers on a Hono router. Hono collects the handlers whose
  method and path pattern match a request and runs them in the order of their registration:
  a middleware that calls \<^verbatim>\<open>next()\<close> passes control to the next matching handler, and a
  handler that returns a response without calling \<^verbatim>\<open>next()\<close> ends the chain. A path is the
  list of its segments; a pattern segment is a literal, a parameter (\<^verbatim>\<open>:name\<close>) or the
  wildcard \<^verbatim>\<open>*\<close>.
\<close>

datatype Seg = Lit string | Param | Star

datatype Handler = Cors | RootInfo | ApiRoute string | AuthMiddleware | McpHandler

record Route =
  route_method :: string
  route_path :: "Seg list"
  route_handler :: Handler

record Request =
  req_method :: string
  req_path :: "string list"
  authorization :: "string option"

fun matchesPath :: "Seg list \<Rightarrow> string list \<Rightarrow> bool" where
  "matchesPath [] [] = True"
| "matchesPath [Star] _ = True"
| "matchesPath (Lit s # ps) (x # xs) = (s = x \<and> matchesPath ps xs)"
| "matchesPath (Param # ps) (x # xs) = (x \<noteq> [] \<and> matchesPath ps xs)"
| "matchesPath _ _ = False"

text \<open>Hono looks a HEAD request up as a GET request.\<close>

definition routedMethod :: "Request \<Rightarrow> string" where
  "routedMethod req = (if req_method req = ''HEAD'' then ''GET'' else req_method req)"

definition matchesRoute :: "Request \<Rightarrow> Route \<Rightarrow> bool" where
  "matchesRoute req r =
     ((route_method r = ''ALL'' \<or> route_method r = routedMethod req)
      \<and> matchesPath (route_path r) (req_path req))"

definition route :: "string \<Rightarrow> Seg list \<Rightarrow> Handler \<Rightarrow> Route" where
  "route m p h = \<lparr> route_method = m, route_path = p, route_handler = h \<rparr>"

text \<open>The routes of api/routes.ts, in the order of the file.\<close>

definition apiRoutes :: "Route list" where
  "apiRoutes =
     [ route ''GET'' [Lit ''health''] (ApiRoute ''GET /health''),
       route ''GET'' [Lit ''current-week''] (ApiRoute ''GET /current-week''),
       route ''GET'' [Lit ''weeks'', Param] (ApiRoute ''GET /weeks/:startDate''),
       route ''GET'' [Lit ''weeks''] (ApiRoute ''GET /weeks''),
       route ''POST'' [Lit ''weeks''] (ApiRoute ''POST /weeks''),
       route ''PUT'' [Lit ''weeks'', Param, Lit ''targets''] (ApiRoute ''PUT /weeks/:id/targets''),
       route ''POST'' [Lit ''weight''] (ApiRoute ''POST /weight''),
       route ''GET'' [Lit ''weight''] (ApiRoute ''GET /weight''),
       route ''GET'' [Lit ''weight'', Lit ''average''] (ApiRoute ''GET /weight/average''),
       route ''POST'' [Lit ''daily-metrics''] (ApiRoute ''POST /daily-metrics''),
       route ''GET'' [Lit ''daily-metrics''] (ApiRoute ''GET /daily-metrics''),
       route ''GET'' [Lit ''body-composition''] (ApiRoute ''GET /body-composition'') ]"

text \<open>\<^verbatim>\<open>app.route(prefix, sub)\<close> registers the routes of \<open>sub\<close> under the prefix, at that point.\<close>

definition mount :: "string \<Rightarrow> Route list \<Rightarrow> Route list" where
  "mount prefix sub = map (\<lambda>r. r\<lparr> route_path := Lit prefix # route_path r \<rparr>) sub"

text \<open>The registrations of index.ts, in the order of the file.\<close>

definition appRoutes :: "Route list" where
  "appRoutes =
     [ route ''ALL'' [Star] Cors,
       route ''GET'' [] RootInfo ]
     @ mount ''api'' apiRoutes
     @ [ route ''ALL'' [Lit ''api'', Star] AuthMiddleware,
         route ''POST'' [Lit ''mcp''] AuthMiddleware,
         route ''POST'' [Lit ''mcp''] McpHandler ]"

text \<open>
  What becomes of a request: the CORS middleware answers a preflight itself, the
  authentication middleware may reject, a route handler serves the request, and when the
  chain runs out the not-found handler answers.
\<close>

datatype Outcome = Preflight | Rejected Response | Served Handler | NotFound

fun runHandlers :: "Env \<Rightarrow> Request \<Rightarrow> Handler list \<Rightarrow> Outcome" where
  "runHandlers env req [] = NotFound"
| "runHandlers env req (Cors # hs) =
     (if req_method req = ''OPTIONS'' then Preflight else runHandlers env req hs)"
| "runHandlers env req (AuthMiddleware # hs) =
     (case authMiddleware env (authorization req) of
        Some rejection \<Rightarrow> Rejected rejection
      | None \<Rightarrow> runHandlers env req hs)"
| "runHandlers env req (h # hs) = Served h"

definition dispatch :: "Env \<Rightarrow> Request \<Rightarrow> Outcome" where
  "dispatch env req =
     runHandlers env req (map route_handler (filter (matchesRoute req) appRoutes))"

section \<open>Examples and composite operations\<close>

text \<open>A completed week without actuals, and the input that creates its row.\<close>

definition exampleWeek :: WeekRecord where
  "exampleWeek = \<lparr> week_id = ''w1'', start_date = ''2024-01-07'', end_date = ''2024-01-13'',
     target_calories = Some 14000, target_protein = Some 1050, target_steps = Some 70000,
     target_cardio = Some 2000,
     phase = ''cut'', total_steps = None, total_calories = None, total_protein = None,
     total_cardio_calories = None, average_weight = None,
     week_over_week_weight_change = None,
     week_body_fat_percentage = None, body_fat_change = None,
     week_muscle_mass_percentage = None, muscle_mass_change = None,
     is_complete = 1, completed_at = Some ''2024-01-14T00:00:00Z'',
     created_at = ''2024-01-07T00:00:00Z'', updated_at = ''2024-01-14T00:00:00Z'' \<rparr>"

definition exampleInput :: WeekInput where
  "exampleInput = \<lparr> in_id = ''w1'', in_start_date = ''2024-01-07'', in_end_date = ''2024-01-13'',
     in_target_calories = Some 14000, in_target_protein = Some 1050,
     in_target_steps = Some 70000, in_target_cardio = Some 2000,
     in_phase = Some ''cut'', in_total_steps = None, in_total_calories = None,
     in_total_protein = None, in_total_cardio_calories = None, in_average_weight = None,
     in_week_over_week_weight_change = None, in_body_fat_percentage = None,
     in_body_fat_change = None, in_muscle_mass_percentage = None,
     in_muscle_mass_change = None, in_is_complete = None, in_completed_at = None \<rparr>"

text \<open>Persisting a week with \<^verbatim>\<open>createWeek\<close> and re-reading it by its start date.\<close>

definition roundTrip :: "WeekRecord list \<Rightarrow> string \<Rightarrow> WeekInput \<Rightarrow> D1Error + WeekRecord option" where
  "roundTrip rows now week =
     (case createWeek rows now week of
        Inl e \<Rightarrow> Inl e
      | Inr rows' \<Rightarrow> Inr (getWeekByStartDate rows' (in_start_date week)))"


text \<open>A \<^verbatim>\<open>tools/call\<close> request body, and the 200 response that carries one text block.\<close>

definition toolCall :: "string \<Rightarrow> ToolArgs \<Rightarrow> McpBody" where
  "toolCall name args = \<lparr> rpc_method = ''tools/call'', tool_name = Some name, arguments = Some args \<rparr>"

definition prose :: "string \<Rightarrow> Response" where
  "prose t = \<lparr> status = 200, body = ToolOutput [\<lparr> block_type = ''text'', block_text = t \<rparr>] \<rparr>"

text \<open>An instance of the report parameter: the heading with which each report starts.\<close>

definition reportHeadings :: Reports where
  "reportHeadings =
     \<lparr> weightTrendReport = (\<lambda>s e readings. ''Weight Trend Analysis ('' @ s @ '' to '' @ e @ '')''),
       weeklyHistoryReport = (\<lambda>offset' weeks'.
          ''Weekly History (showing '' @ showNat (length weeks') @ '' weeks)''),
       phaseAnalysisReport = (\<lambda>s e weeks'.
          ''Phase Analysis ('' @ showArg s @ '' to '' @ showArg e @ '')''),
       bodyCompositionReport = (\<lambda>s e readings.
          ''Body Composition Trend ('' @ s @ '' to '' @ e @ '')''),
       currentWeekReport = (\<lambda>week. start_date week @ '' - '' @ end_date week) \<rparr>"

text \<open>A reading stored under the given date text.\<close>

definition dated :: "string \<Rightarrow> real \<Rightarrow> string WeightReading" where
  "dated d w = \<lparr> reading_id = [], date = d, weight = w, body_fat_percentage = None,
                 muscle_mass_percentage = None, source = ''API'' \<rparr>"

definition emptyDatabase :: Database where
  "emptyDatabase = \<lparr> weeks = [], weight_readings = [] \<rparr>"

definition dateRange :: "string \<Rightarrow> string \<Rightarrow> ToolArgs" where
  "dateRange s e = \<lparr> startDate = Some s, endDate = Some e, limit = None, offset = None \<rparr>"


section \<open>Properties of the rolling average\<close>

subsection \<open>The client's calculator\<close>

lemma foldl_weight_acc:
  "foldl (\<lambda>acc r. acc + weight r) a rs = a + sum_list (map weight rs)"
  by (induction rs arbitrary: a) simp_all

lemma foldl_weight_sum: "foldl (\<lambda>acc r. acc + weight r) 0 rs = sum_list (map weight rs)"
  by (simp add: foldl_weight_acc)

lemma relevant_is_inWindow:
  "filter (\<lambda>reading. date reading \<ge> addingDays (- windowDays + 1) targetDate
                      \<and> date reading \<le> targetDate) readings
   = inWindow readings targetDate windowDays"
  unfolding inWindow_def addingDays_def
  by (rule filter_cong) auto

lemma calculate7DayAverage_inWindow:
  "calculate7DayAverage readings targetDate windowDays =
     (let rel = inWindow readings targetDate windowDays
      in if length rel < 3 then
           \<lparr> average = None, confidence = 0, readingCount = length rel, isValid = False \<rparr>
         else
           \<lparr> average = Some (mean (map weight rel)),
             confidence = real (length rel) / real_of_int windowDays,
             readingCount = length rel, isValid = True \<rparr>)"
  unfolding calculate7DayAverage_def relevant_is_inWindow Let_def mean_def foldl_weight_sum
  by (simp add: not_le)

text \<open>
  With a window of at least one day and at least three readings dated in
  \<open>[targetDate - windowDays + 1, targetDate]\<close>, the calculator returns the arithmetic mean
  of the weights of exactly those readings, and the result is valid.
\<close>

lemma calculator_average_is_window_mean:
  assumes "windowDays \<ge> 1"
    and "length (inWindow readings targetDate windowDays) \<ge> 3"
  shows "average (calculate7DayAverage readings targetDate windowDays)
           = Some (mean (map weight (inWindow readings targetDate windowDays)))"
    and "isValid (calculate7DayAverage readings targetDate windowDays)"
  using assms(2) by (simp_all add: calculate7DayAverage_inWindow Let_def)

text \<open>
  With fewer than three readings dated in the window, whatever the window length, the
  calculator's result is invalid: no average, confidence 0, and the count of the readings
  that were in the window.
\<close>

lemma calculator_too_few_readings:
  assumes "length (inWindow readings targetDate windowDays) < 3"
  shows "calculate7DayAverage readings targetDate windowDays
           = \<lparr> average = None, confidence = 0,
               readingCount = length (inWindow readings targetDate windowDays),
               isValid = False \<rparr>"
  using assms by (simp add: calculate7DayAverage_inWindow Let_def)

text \<open>
  The confidence of a valid result is the quotient of the reading count and the window
  length, and a valid result has a window of at least one day, so the quotient is defined.
  It stays within \<open>[0, 1]\<close> as long as the window holds no more readings than days.
\<close>

lemma valid_window_positive:
  assumes "isValid (calculate7DayAverage readings targetDate windowDays)"
  shows "windowDays \<ge> 1"
proof (rule ccontr)
  assume "\<not> windowDays \<ge> 1"
  then have "real_of_int windowDays \<le> 0" by simp
  then have "inWindow readings targetDate windowDays = []"
    by (auto simp: inWindow_def filter_empty_conv)
  with assms show False
    by (simp add: calculate7DayAverage_inWindow)
qed

lemma valid_confidence_quotient:
  assumes "isValid (calculate7DayAverage readings targetDate windowDays)"
  shows "confidence (calculate7DayAverage readings targetDate windowDays)
           = real (readingCount (calculate7DayAverage readings targetDate windowDays))
               / real_of_int windowDays"
  using assms by (simp add: calculate7DayAverage_inWindow Let_def split: if_splits)

lemma confidence_bounded_when_sparse:
  assumes "int (length (inWindow readings targetDate windowDays)) \<le> windowDays"
  shows "0 \<le> confidence (calculate7DayAverage readings targetDate windowDays)"
    and "confidence (calculate7DayAverage readings targetDate windowDays) \<le> 1"
proof -
  let ?n = "length (inWindow readings targetDate windowDays)"
  from assms have le: "real ?n \<le> real_of_int windowDays"
    by (metis of_int_le_iff of_int_of_nat_eq)
  { assume "\<not> ?n < 3"
    then have "0 < real_of_int windowDays" using le by linarith
    then have "0 \<le> real ?n / real_of_int windowDays \<and> real ?n / real_of_int windowDays \<le> 1"
      using le by simp }
  then show "0 \<le> confidence (calculate7DayAverage readings targetDate windowDays)"
    and "confidence (calculate7DayAverage readings targetDate windowDays) \<le> 1"
    by (auto simp: calculate7DayAverage_inWindow Let_def)
qed

subsection \<open>The server's query\<close>

text \<open>
  17 January 2024 is day 19739 since the epoch. For the target date \<^verbatim>\<open>2024-01-17\<close> and a
  window of 7 days the lower bound of the query is the text \<^verbatim>\<open>2024-01-11T00:00:00.000Z\<close>.
\<close>

lemma parse_examples:
  "parseISO ''2024-01-17'' = Some (19739 * msPerDay)"
  "parseISO ''2024-01-11'' = Some (19733 * msPerDay)"
  "parseISO ''2024-01-12'' = Some (19734 * msPerDay)"
  "parseISO ''2024-01-13'' = Some (19735 * msPerDay)"
  "parseISO ''2024-01-17T20:00:00Z'' = Some (19739 * msPerDay + 72000000)"
  by code_simp+

lemma format_examples:
  "toISOString (19733 * msPerDay) = ''2024-01-11T00:00:00.000Z''"
  "toISOString (19733 * msPerDay + 72000000) = ''2024-01-11T20:00:00.000Z''"
  by code_simp+

lemma window_start_examples:
  "addDate (Some (19739 * msPerDay)) (Some (- 6)) = Some (19733 * msPerDay)"
  "addDate (Some (19739 * msPerDay + 72000000)) (Some (- 6)) = Some (19733 * msPerDay + 72000000)"
  by (simp_all add: addDate_def timeClip_def msPerDay_def)

lemma date_text_below_timestamp: "''2024-01-11'' < ''2024-01-11T00:00:00.000Z''"
  by simp

lemma first_day_rows_selected:
  "getWeightReadings
     [dated ''2024-01-11'' 182, dated ''2024-01-12'' (363/2), dated ''2024-01-13'' 181]
     ''2024-01-11T00:00:00.000Z'' ''2024-01-17''
   = [dated ''2024-01-12'' (363/2), dated ''2024-01-13'' 181]"
  "getWeightReadings [dated ''2024-01-11'' 182, dated ''2024-01-12'' (363/2)]
     ''2024-01-11T00:00:00.000Z'' ''2024-01-17''
   = [dated ''2024-01-12'' (363/2)]"
  by (simp_all add: getWeightReadings_def dated_def)

text \<open>A window length that is NaN makes the window start an invalid date, and the call throws.\<close>

lemma nan_window_throws:
  "calculateRollingAverage parse rows targetDate None
     = Inl (Thrown ''RangeError: Invalid time value'')"
  by (simp add: calculateRollingAverage_def addDate_def split: option.splits)

text \<open>
  C1. Three readings stored under the dates 11, 12 and 13 January 2024, the first three
  days of the 7-day window that ends on the target date 17 January. The server's query
  leaves out the reading of 11 January, the first day of the window, finds two readings and
  returns no average. The client's calculator, given the same three readings on the same
  days, returns their mean 181.5.
\<close>

theorem server_window_drops_first_day:
  "calculateRollingAverage parseISO
     [dated ''2024-01-11'' 182, dated ''2024-01-12'' (363/2), dated ''2024-01-13'' 181]
     ''2024-01-17'' (Some 7)
     = Inr \<lparr> ra_average = None, ra_confidence = Num 0, ra_readingCount = 2 \<rparr>
   \<and> parseISO ''2024-01-17'' = Some (19739 * msPerDay)
   \<and> map parseISO [''2024-01-11'', ''2024-01-12'', ''2024-01-13'']
       = [Some ((19739 - 7 + 1) * msPerDay), Some ((19739 - 7 + 2) * msPerDay),
          Some ((19739 - 7 + 3) * msPerDay)]
   \<and> calculate7DayAverage [day 19733 182, day 19734 (363/2), day 19735 181] 19739 7
       = \<lparr> average = Some (363/2), confidence = 3/7, readingCount = 3, isValid = True \<rparr>"
  by (simp add: calculateRollingAverage_def parse_examples window_start_examples
      format_examples first_day_rows_selected calculate7DayAverage_inWindow inWindow_def
      day_def mean_def)

text \<open>
  C2. Two readings in the same window, one of them on its first day: the server reports a
  reading count of 1, the client's calculator the count 2 of the readings in the window.
\<close>

theorem server_count_misses_first_day:
  "calculateRollingAverage parseISO
     [dated ''2024-01-11'' 182, dated ''2024-01-12'' (363/2)] ''2024-01-17'' (Some 7)
     = Inr \<lparr> ra_average = None, ra_confidence = Num 0, ra_readingCount = 1 \<rparr>
   \<and> parseISO ''2024-01-17'' = Some (19739 * msPerDay)
   \<and> map parseISO [''2024-01-11'', ''2024-01-12'']
       = [Some ((19739 - 7 + 1) * msPerDay), Some ((19739 - 7 + 2) * msPerDay)]
   \<and> calculate7DayAverage [day 19733 182, day 19734 (363/2)] 19739 7
       = \<lparr> average = None, confidence = 0, readingCount = 2, isValid = False \<rparr>"
  by (simp add: calculateRollingAverage_def parse_examples window_start_examples
      format_examples first_day_rows_selected calculate7DayAverage_inWindow inWindow_def
      day_def)

subsection \<open>Confidence above one\<close>

lemma weight_dated: "weight (dated d w) = w"
  by (simp add: dated_def)

lemma timestamp_rows_selected:
  "getWeightReadings
     [dated ''2024-01-11T21:00:00Z'' 180, dated ''2024-01-12T08:00:00Z'' 180,
      dated ''2024-01-13T08:00:00Z'' 180, dated ''2024-01-14T08:00:00Z'' 180,
      dated ''2024-01-14T18:00:00Z'' 181, dated ''2024-01-15T08:00:00Z'' 180,
      dated ''2024-01-16T08:00:00Z'' 180, dated ''2024-01-17T08:00:00Z'' 180]
     ''2024-01-11T20:00:00.000Z'' ''2024-01-17T20:00:00Z''
   = [dated ''2024-01-11T21:00:00Z'' 180, dated ''2024-01-12T08:00:00Z'' 180,
      dated ''2024-01-13T08:00:00Z'' 180, dated ''2024-01-14T08:00:00Z'' 180,
      dated ''2024-01-14T18:00:00Z'' 181, dated ''2024-01-15T08:00:00Z'' 180,
      dated ''2024-01-16T08:00:00Z'' 180, dated ''2024-01-17T08:00:00Z'' 180]"
  by (simp add: getWeightReadings_def dated_def)

text \<open>
  C3. Eight readings on the seven days of the window (two of them on day 4): the result is
  valid and its confidence is \<open>8/7\<close>, above the documented range of 0.0 to 1.0. The server
  returns the same confidence for eight time-stamped readings in its window.
\<close>

theorem confidence_exceeds_one:
  "calculate7DayAverage
     [day 1 180, day 2 180, day 3 180, day 4 180, day 4 181, day 5 180, day 6 180, day 7 180] 7 7
     = \<lparr> average = Some (1441/8), confidence = 8/7, readingCount = 8, isValid = True \<rparr>
   \<and> calculateRollingAverage parseISO
     [dated ''2024-01-11T21:00:00Z'' 180, dated ''2024-01-12T08:00:00Z'' 180,
      dated ''2024-01-13T08:00:00Z'' 180, dated ''2024-01-14T08:00:00Z'' 180,
      dated ''2024-01-14T18:00:00Z'' 181, dated ''2024-01-15T08:00:00Z'' 180,
      dated ''2024-01-16T08:00:00Z'' 180, dated ''2024-01-17T08:00:00Z'' 180]
     ''2024-01-17T20:00:00Z'' (Some 7)
     = Inr \<lparr> ra_average = Some (1441/8), ra_confidence = Num (8/7), ra_readingCount = 8 \<rparr>
   \<and> (8/7 :: real) > 1"
  by (simp add: calculate7DayAverage_inWindow inWindow_def day_def mean_def
      calculateRollingAverage_def parse_examples window_start_examples format_examples
      timestamp_rows_selected weight_dated)

section \<open>Properties of the phase suggestion\<close>

lemma sortDescending_objectEntries:
  "\<exists>rest. sortDescending (objectEntries sc) = (firstHighest sc, sc (firstHighest sc)) # rest"
  by (auto simp: sortDescending_def objectEntries_def firstHighest_def)

lemma firstHighest_max: "sc q \<le> sc (firstHighest sc)"
  by (cases q) (auto simp: firstHighest_def)

lemma firstHighest_first: "sc q = sc (firstHighest sc) \<Longrightarrow> phaseRank (firstHighest sc) \<le> phaseRank q"
  by (cases q) (auto simp: firstHighest_def split: if_splits)

lemma suggestPhase_eq:
  "suggestPhase s w =
     Inr \<lparr> suggestedPhase = firstHighest (combinedScores s w),
           ps_confidence = combinedScores s w (firstHighest (combinedScores s w)) / 2,
           reasoning = generateReasoning (firstHighest (combinedScores s w)) s w,
           calorieBalance = s, weightTrend = w \<rparr>"
proof -
  obtain rest where "sortDescending (objectEntries (combinedScores s w))
      = (firstHighest (combinedScores s w),
         combinedScores s w (firstHighest (combinedScores s w))) # rest"
    using sortDescending_objectEntries by blast
  then show ?thesis by (simp add: suggestPhase_def)
qed

lemma combinedScores_le_2: "combinedScores s w p \<le> 2"
  by (cases p) (auto simp: combinedScores_def scoreCalorieBalance_def scoreWeightTrend_def Let_def)

lemma combinedScores_some_ge_1:
  "combinedScores s w cut \<ge> 1 \<or> combinedScores s w maintenance \<ge> 1 \<or> combinedScores s w bulk \<ge> 1"
  by (auto simp: combinedScores_def scoreCalorieBalance_def scoreWeightTrend_def Let_def)

lemma detectorScores_eq: "detectorScores s w = (\<lambda>q. Some (combinedScores s w q))"
proof
  fix q
  show "detectorScores s w q = Some (combinedScores s w q)"
    by (cases q)
      (simp_all add: detectorScores_def combinedScores_def scoreCalorieBalance_def
        scoreWeightTrend_def initialScores_def addScore_def Let_def)
qed

lemma sortDescending_head:
  assumes "sortDescending es = (p, v) # rest"
  shows "(p, v) \<in> set es" and "\<forall>e\<in>set es. snd e \<le> v"
    and "filter (\<lambda>e. snd e = v) es = (p, v) # filter (\<lambda>e. snd e = v) rest"
proof -
  have s: "set es = insert (p, v) (set rest)"
    using assms set_sort [of "\<lambda>e. - snd e" es] by (simp add: sortDescending_def)
  show "(p, v) \<in> set es" using s by simp
  have "sorted (map (\<lambda>e. - snd e) (sortDescending es))"
    by (simp add: sortDescending_def)
  then have "\<forall>e\<in>set rest. snd e \<le> v" using assms by auto
  then show "\<forall>e\<in>set es. snd e \<le> v" using s by auto
  have "filter (\<lambda>e. - snd e = - v) (sortDescending es) = filter (\<lambda>e. - snd e = - v) es"
    unfolding sortDescending_def by (rule sort_key_stable)
  then show "filter (\<lambda>e. snd e = v) es = (p, v) # filter (\<lambda>e. snd e = v) rest"
    using assms by simp
qed

lemma filter_Cons_find: "filter P xs = x # ys \<Longrightarrow> find P xs = Some x"
  by (induction xs) (auto split: if_splits)

lemma dictionaryPairs_total: "dictionaryPairs order (\<lambda>q. Some (sc q)) = map (\<lambda>k. (k, sc k)) order"
  by (induction order) (simp_all add: dictionaryPairs_def)

lemma detector_head:
  assumes "order \<noteq> []"
  shows "\<exists>p rest. sortDescending (dictionaryPairs order (\<lambda>q. Some (sc q))) = (p, sc p) # rest
           \<and> p \<in> set order \<and> (\<forall>k\<in>set order. sc k \<le> sc p) \<and> find (\<lambda>k. sc k = sc p) order = Some p"
proof -
  let ?es = "map (\<lambda>k. (k, sc k)) order"
  have "length (sortDescending ?es) = length order" by (simp add: sortDescending_def)
  then have "sortDescending ?es \<noteq> []" using assms by auto
  then obtain p v rest where h: "sortDescending ?es = (p, v) # rest"
    by (cases "sortDescending ?es") auto
  from sortDescending_head(1) [OF h] have v: "v = sc p" and pin: "p \<in> set order" by auto
  from sortDescending_head(2) [OF h] have mx: "\<forall>k\<in>set order. sc k \<le> sc p" using v by auto
  have "filter (\<lambda>e. snd e = v) ?es = map (\<lambda>k. (k, sc k)) (filter (\<lambda>k. sc k = v) order)"
    by (simp add: filter_map comp_def)
  with sortDescending_head(3) [OF h]
  have "map (\<lambda>k. (k, sc k)) (filter (\<lambda>k. sc k = v) order) = (p, v) # filter (\<lambda>e. snd e = v) rest" by simp
  then obtain ys where "filter (\<lambda>k. sc k = v) order = p # ys"
    by (cases "filter (\<lambda>k. sc k = v) order") auto
  then have "find (\<lambda>k. sc k = sc p) order = Some p" using v filter_Cons_find by fast
  with h v pin mx show ?thesis by (auto simp: dictionaryPairs_total)
qed

lemma UNIV_Phase: "(UNIV :: Phase set) = {cut, maintenance, bulk}"
  by (auto intro: Phase.exhaust)

lemma combinedScores_firstHighest_ge_1: "1 \<le> combinedScores s w (firstHighest (combinedScores s w))"
proof -
  from combinedScores_some_ge_1 [of s w] obtain q where "1 \<le> combinedScores s w q" by blast
  also have "combinedScores s w q \<le> combinedScores s w (firstHighest (combinedScores s w))"
    by (rule firstHighest_max)
  finally show ?thesis .
qed

lemma detector_result:
  assumes "set order = UNIV"
  shows "\<exists>p. detectorSuggestPhase order s w =
           \<lparr> suggestedPhase = p, ps_confidence = combinedScores s w p / 2,
             reasoning = generateReasoning p s w, calorieBalance = s, weightTrend = w \<rparr>
         \<and> (\<forall>q. combinedScores s w q \<le> combinedScores s w p)
         \<and> find (\<lambda>k. combinedScores s w k = combinedScores s w p) order = Some p"
proof -
  from assms have "order \<noteq> []" by auto
  from detector_head [OF this, of "combinedScores s w"] obtain p rest where
    h: "sortDescending (dictionaryPairs order (\<lambda>q. Some (combinedScores s w q)))
          = (p, combinedScores s w p) # rest"
    and mx: "\<forall>k\<in>set order. combinedScores s w k \<le> combinedScores s w p"
    and fi: "find (\<lambda>k. combinedScores s w k = combinedScores s w p) order = Some p"
    by blast
  from mx assms have "\<forall>q. combinedScores s w q \<le> combinedScores s w p" by simp
  moreover have "detectorSuggestPhase order s w =
           \<lparr> suggestedPhase = p, ps_confidence = combinedScores s w p / 2,
             reasoning = generateReasoning p s w, calorieBalance = s, weightTrend = w \<rparr>"
    by (simp add: detectorSuggestPhase_def detectorScores_eq h)
  ultimately show ?thesis using fi by blast
qed

text \<open>
  C4. The suggested phase has the highest combined score. In calculations.ts a tie goes to
  the first of cut, maintenance, bulk among the tied phases. In PhaseDetector.swift a tie
  goes to the tied phase that the dictionary iterates first, for every iteration order
  \<open>order\<close> of the three keys.
\<close>

theorem highest_score_wins:
  assumes "distinct order" and "set order = UNIV"
  shows "(\<exists>r. suggestPhase s w = Inr r
            \<and> (\<forall>q. combinedScores s w q \<le> combinedScores s w (suggestedPhase r))
            \<and> (\<forall>q. combinedScores s w q = combinedScores s w (suggestedPhase r)
                  \<longrightarrow> phaseRank (suggestedPhase r) \<le> phaseRank q))
       \<and> (\<forall>q. combinedScores s w q
                \<le> combinedScores s w (suggestedPhase (detectorSuggestPhase order s w)))
       \<and> find (\<lambda>k. combinedScores s w k
                     = combinedScores s w (suggestedPhase (detectorSuggestPhase order s w))) order
           = Some (suggestedPhase (detectorSuggestPhase order s w))"
proof -
  have ts: "\<exists>r. suggestPhase s w = Inr r
            \<and> (\<forall>q. combinedScores s w q \<le> combinedScores s w (suggestedPhase r))
            \<and> (\<forall>q. combinedScores s w q = combinedScores s w (suggestedPhase r)
                  \<longrightarrow> phaseRank (suggestedPhase r) \<le> phaseRank q)"
    by (simp add: suggestPhase_eq firstHighest_max firstHighest_first)
  from detector_result [OF assms(2), of s w] obtain p where
    "detectorSuggestPhase order s w =
           \<lparr> suggestedPhase = p, ps_confidence = combinedScores s w p / 2,
             reasoning = generateReasoning p s w, calorieBalance = s, weightTrend = w \<rparr>"
    and "\<forall>q. combinedScores s w q \<le> combinedScores s w p"
    and "find (\<lambda>k. combinedScores s w k = combinedScores s w p) order = Some p"
    by blast
  then show ?thesis using ts by simp
qed

text \<open>A deficit of 400 kcal with a gain of 1 lb a week: cut and bulk both score 1.\<close>

theorem highest_score_wins_witness:
  "distinct [bulk, maintenance, cut] \<and> set [bulk, maintenance, cut] = UNIV
   \<and> suggestPhase (- 400) 1 =
       Inr \<lparr> suggestedPhase = cut, ps_confidence = 1/2,
             reasoning = ''In a calorie deficit, gaining weight. Suggests cutting phase.'',
             calorieBalance = - 400, weightTrend = 1 \<rparr>
   \<and> (\<forall>q. combinedScores (- 400) 1 q
                \<le> combinedScores (- 400) 1
                     (suggestedPhase (detectorSuggestPhase [bulk, maintenance, cut] (- 400) 1)))
   \<and> find (\<lambda>k. combinedScores (- 400) 1 k
                     = combinedScores (- 400) 1
                         (suggestedPhase (detectorSuggestPhase [bulk, maintenance, cut] (- 400) 1)))
          [bulk, maintenance, cut]
       = Some (suggestedPhase (detectorSuggestPhase [bulk, maintenance, cut] (- 400) 1))"
proof -
  have h1: "distinct [bulk, maintenance, cut]" by simp
  have h2: "set [bulk, maintenance, cut] = UNIV" by (auto simp: UNIV_Phase)
  have ts: "suggestPhase (- 400) 1 =
       Inr \<lparr> suggestedPhase = cut, ps_confidence = 1/2,
             reasoning = ''In a calorie deficit, gaining weight. Suggests cutting phase.'',
             calorieBalance = - 400, weightTrend = 1 \<rparr>"
    by (simp add: suggestPhase_def combinedScores_def scoreCalorieBalance_def scoreWeightTrend_def
        sortDescending_def objectEntries_def generateReasoning_def)
  show ?thesis
    using highest_score_wins [OF h1 h2, of "- 400" 1] h1 h2 ts by blast
qed

text \<open>
  On the same input PhaseDetector.swift, iterating its dictionary in the order bulk,
  maintenance, cut, suggests bulk although cut has the same score and comes first in the
  order cut, maintenance, bulk.
\<close>

theorem tie_winner_follows_iteration_order:
  "suggestedPhase (detectorSuggestPhase [bulk, maintenance, cut] (- 400) 1) = bulk
   \<and> combinedScores (- 400) 1 cut = 1 \<and> combinedScores (- 400) 1 bulk = 1
   \<and> combinedScores (- 400) 1 maintenance = 0
   \<and> phaseRank cut < phaseRank bulk"
  by (simp add: detectorSuggestPhase_def detectorScores_def initialScores_def addScore_def
      dictionaryPairs_def sortDescending_def combinedScores_def scoreCalorieBalance_def
      scoreWeightTrend_def)

text \<open>
  C5. The confidence of a suggestion is the combined score of the winning phase divided by
  2; the winning score lies between 1 and 2, so the confidence lies between 0.5 and 1.
\<close>

theorem confidence_half_of_winning_score:
  assumes "distinct order" and "set order = UNIV"
  shows "(\<exists>r. suggestPhase s w = Inr r
            \<and> (\<forall>q. combinedScores s w q \<le> combinedScores s w (suggestedPhase r))
            \<and> ps_confidence r = combinedScores s w (suggestedPhase r) / 2
            \<and> 1 \<le> combinedScores s w (suggestedPhase r)
            \<and> combinedScores s w (suggestedPhase r) \<le> 2
            \<and> 1/2 \<le> ps_confidence r \<and> ps_confidence r \<le> 1)
       \<and> (\<forall>q. combinedScores s w q
                \<le> combinedScores s w (suggestedPhase (detectorSuggestPhase order s w)))
       \<and> ps_confidence (detectorSuggestPhase order s w)
           = combinedScores s w (suggestedPhase (detectorSuggestPhase order s w)) / 2
       \<and> 1 \<le> combinedScores s w (suggestedPhase (detectorSuggestPhase order s w))
       \<and> combinedScores s w (suggestedPhase (detectorSuggestPhase order s w)) \<le> 2
       \<and> 1/2 \<le> ps_confidence (detectorSuggestPhase order s w)
       \<and> ps_confidence (detectorSuggestPhase order s w) \<le> 1"
proof -
  let ?f = "firstHighest (combinedScores s w)"
  have ge: "1 \<le> combinedScores s w ?f" by (rule combinedScores_firstHighest_ge_1)
  have le: "combinedScores s w ?f \<le> 2" by (rule combinedScores_le_2)
  have ts: "\<exists>r. suggestPhase s w = Inr r
            \<and> (\<forall>q. combinedScores s w q \<le> combinedScores s w (suggestedPhase r))
            \<and> ps_confidence r = combinedScores s w (suggestedPhase r) / 2
            \<and> 1 \<le> combinedScores s w (suggestedPhase r)
            \<and> combinedScores s w (suggestedPhase r) \<le> 2
            \<and> 1/2 \<le> ps_confidence r \<and> ps_confidence r \<le> 1"
    using ge le by (simp add: suggestPhase_eq firstHighest_max)
  from detector_result [OF assms(2), of s w] obtain p where
    d: "detectorSuggestPhase order s w =
           \<lparr> suggestedPhase = p, ps_confidence = combinedScores s w p / 2,
             reasoning = generateReasoning p s w, calorieBalance = s, weightTrend = w \<rparr>"
    and mx: "\<forall>q. combinedScores s w q \<le> combinedScores s w p"
    by blast
  from mx have "combinedScores s w ?f \<le> combinedScores s w p" by blast
  with ge have pge: "1 \<le> combinedScores s w p" by linarith
  have ple: "combinedScores s w p \<le> 2" by (rule combinedScores_le_2)
  show ?thesis using ts d mx pge ple by simp
qed

text \<open>No surplus and no weight change: maintenance with confidence 1.\<close>

theorem confidence_half_of_winning_score_witness:
  "distinct [cut, maintenance, bulk] \<and> set [cut, maintenance, bulk] = UNIV
   \<and> suggestPhase 0 0 =
       Inr \<lparr> suggestedPhase = maintenance, ps_confidence = 1,
             reasoning = ''Calories balanced, weight maintaining. Suggests maintenance.'',
             calorieBalance = 0, weightTrend = 0 \<rparr>
   \<and> 1/2 \<le> ps_confidence (detectorSuggestPhase [cut, maintenance, bulk] 0 0)
   \<and> ps_confidence (detectorSuggestPhase [cut, maintenance, bulk] 0 0) \<le> 1"
proof -
  have h1: "distinct [cut, maintenance, bulk]" by simp
  have h2: "set [cut, maintenance, bulk] = UNIV" by (auto simp: UNIV_Phase)
  have ts: "suggestPhase 0 0 =
       Inr \<lparr> suggestedPhase = maintenance, ps_confidence = 1,
             reasoning = ''Calories balanced, weight maintaining. Suggests maintenance.'',
             calorieBalance = 0, weightTrend = 0 \<rparr>"
    by (simp add: suggestPhase_def combinedScores_def scoreCalorieBalance_def scoreWeightTrend_def
        sortDescending_def objectEntries_def generateReasoning_def)
  show ?thesis
    using confidence_half_of_winning_score [OF h1 h2, of 0 0] h1 h2 ts by blast
qed

section \<open>Properties of the reports and of the weeks table\<close>

subsection \<open>Rounding and adherence\<close>

lemmas binary64_eval = binary64_def roundPositive.simps roundHalfEven_def two52_def







lemma foldl_js_add_finite:
  assumes "\<forall>w\<in>set ws. f w = Num (g w)"
  shows "foldl (\<lambda>sum w. js_add sum (f w)) (Num a) ws
           = Num (foldl (\<lambda>sum w. binary64 (sum + g w)) a ws)"
  using assms by (induction ws arbitrary: a) simp_all



text \<open>
  The decimal tie of the quotient 10227 / 14000: its binary64 value lies just below 73.05,
  and one digit after the point gives 73.0.
\<close>

lemma tie_rounds_down: "adherenceSuffix (Some 10227) (Some 14000) = ''(73.0%)''"
  by (simp add: adherenceSuffix_def adherencePercent_def toNumber_def binary64_eval toFixed1_def)




subsection \<open>Zero actuals in the week summary\<close>




subsection \<open>Creating a week and reading it back\<close>

lemma find_append_last:
  assumes "\<forall>r\<in>set rows. \<not> P r" and "P x"
  shows "find P (rows @ [x]) = Some x"
  using assms by (induction rows) simp_all

lemma roundTrip_bound:
  assumes "in_id week \<notin> set (map week_id rows)"
    and "\<forall>r\<in>set rows. start_date r \<noteq> in_start_date week"
  shows "roundTrip rows now week = Inr (Some (boundWeek now week))"
proof -
  have "find (\<lambda>w. start_date w = in_start_date week) (rows @ [boundWeek now week])
          = Some (boundWeek now week)"
    using assms(2) by (intro find_append_last) (simp_all add: boundWeek_def)
  then show ?thesis
    using assms(1) by (simp add: roundTrip_def createWeek_def getWeekByStartDate_def)
qed

text \<open>
  C9. Creating a week whose id is new and whose start date no stored week has, then reading
  it back by its start date, succeeds and returns the created row. A target comes back as
  given, or as 0 when it was absent; the phase as given, or as maintenance when it was
  absent or empty; an actual as given, except that an actual of 0 comes back as null.
\<close>

theorem createWeek_round_trip:
  assumes "in_id week \<notin> set (map week_id rows)"
    and "\<forall>r\<in>set rows. start_date r \<noteq> in_start_date week"
  shows "\<exists>row. roundTrip rows now week = Inr (Some row)
     \<and> target_calories row = Some (case in_target_calories week of None \<Rightarrow> 0 | Some t \<Rightarrow> t)
     \<and> target_protein row = Some (case in_target_protein week of None \<Rightarrow> 0 | Some t \<Rightarrow> t)
     \<and> target_steps row = Some (case in_target_steps week of None \<Rightarrow> 0 | Some t \<Rightarrow> t)
     \<and> target_cardio row = Some (case in_target_cardio week of None \<Rightarrow> 0 | Some t \<Rightarrow> t)
     \<and> phase row = (case in_phase week of None \<Rightarrow> ''maintenance''
                      | Some p \<Rightarrow> if p = [] then ''maintenance'' else p)
     \<and> total_steps row = (if in_total_steps week = Some 0 then None else in_total_steps week)
     \<and> total_calories row
         = (if in_total_calories week = Some 0 then None else in_total_calories week)
     \<and> total_protein row
         = (if in_total_protein week = Some 0 then None else in_total_protein week)
     \<and> total_cardio_calories row
         = (if in_total_cardio_calories week = Some 0 then None
            else in_total_cardio_calories week)"
proof -
  have "roundTrip rows now week = Inr (Some (boundWeek now week))"
    using assms by (rule roundTrip_bound)
  moreover have "orZero x = (case x of None \<Rightarrow> 0 | Some t \<Rightarrow> t)" for x :: "int option"
    by (simp add: orZero_def split: option.splits)
  moreover have "orNull x = (if x = Some 0 then None else x)" for x :: "int option"
    by (auto simp: orNull_def truthyNum_def split: option.splits)
  ultimately show ?thesis
    by (simp add: boundWeek_def strOr_def split: option.splits)
qed

theorem createWeek_round_trip_witness:
  "in_id exampleInput \<notin> set (map week_id [])
   \<and> roundTrip [] ''2024-01-07T09:00:00.000Z'' exampleInput
       = Inr (Some (exampleWeek\<lparr> is_complete := 0, completed_at := None,
                created_at := ''2024-01-07T09:00:00.000Z'',
                updated_at := ''2024-01-07T09:00:00.000Z'' \<rparr>))"
proof -
  have h1: "in_id exampleInput \<notin> set (map week_id [])" by simp
  have h2: "\<forall>r\<in>set ([] :: WeekRecord list). start_date r \<noteq> in_start_date exampleInput" by simp
  obtain row where r: "roundTrip [] ''2024-01-07T09:00:00.000Z'' exampleInput = Inr (Some row)"
    using createWeek_round_trip [OF h1 h2] by blast
  then have "row = exampleWeek\<lparr> is_complete := 0, completed_at := None,
                created_at := ''2024-01-07T09:00:00.000Z'',
                updated_at := ''2024-01-07T09:00:00.000Z'' \<rparr>"
    by (simp add: roundTrip_def createWeek_def getWeekByStartDate_def boundWeek_def
        exampleInput_def exampleWeek_def orZero_def orNull_def strOr_def strOrNull_def
        truthyNum_def truthyStr_def)
  with r show ?thesis by simp
qed

text \<open>A week created with zero calories eaten is read back with no calorie total.\<close>

theorem zero_actual_read_back_as_null:
  "in_total_calories (exampleInput\<lparr> in_total_calories := Some 0 \<rparr>) = Some 0
   \<and> roundTrip [] ''2024-01-07T09:00:00.000Z'' (exampleInput\<lparr> in_total_calories := Some 0 \<rparr>)
       = Inr (Some (boundWeek ''2024-01-07T09:00:00.000Z''
                      (exampleInput\<lparr> in_total_calories := Some 0 \<rparr>)))
   \<and> total_calories (boundWeek ''2024-01-07T09:00:00.000Z''
                      (exampleInput\<lparr> in_total_calories := Some 0 \<rparr>)) = None"
  by (simp add: roundTrip_def createWeek_def getWeekByStartDate_def boundWeek_def
      exampleInput_def orNull_def truthyNum_def)

section \<open>Properties of the tool endpoint\<close>

lemma respond_textContent: "respond (textContent t) = prose t"
  by (simp add: respond_def textContent_def prose_def json_def)

lemma postMcp_authenticated:
  "authMiddleware env auth = None \<Longrightarrow> postMcp env rep db auth b = mcpHandler rep db b"
  by (simp add: postMcp_def)

lemma week_summary_no_week:
  assumes "startDate args = Some d" and "getWeekByStartDate (weeks db) d = None"
  shows "mcpHandler rep db (toolCall ''get_week_summary'' args)
           = prose (''No week found starting on '' @ d)"
  using assms
  by (simp add: mcpHandler_def toolCall_def executeWeekSummary_def respond_textContent)

lemma weight_trend_no_readings:
  assumes "startDate args = Some s" and "endDate args = Some e"
    and "getWeightReadings (weight_readings db) s e = []"
  shows "mcpHandler rep db (toolCall ''get_weight_trend'' args)
           = prose (''No weight readings found between '' @ s @ '' and '' @ e)"
  using assms
  by (simp add: mcpHandler_def toolCall_def executeWeightTrend_def respond_textContent)

lemma weekly_history_no_weeks:
  assumes "getWeeks (weeks db) (if truthyNum (limit args) then orZero (limit args) else 10)
             (orZero (offset args)) = []"
  shows "mcpHandler rep db (toolCall ''get_weekly_history'' args)
           = prose ''No completed weeks found''"
  using assms
  by (simp add: mcpHandler_def toolCall_def executeWeeklyHistory_def respond_textContent Let_def)

lemma phase_analysis_no_weeks:
  assumes "filter (\<lambda>w. geArg (start_date w) (startDate args) \<and> leArg (start_date w) (endDate args))
             (getWeeks (weeks db) 100 0) = []"
  shows "mcpHandler rep db (toolCall ''analyze_phases'' args)
           = prose (''No weeks found between '' @ showArg (startDate args)
                    @ '' and '' @ showArg (endDate args))"
  using assms
  by (simp add: mcpHandler_def toolCall_def executePhaseAnalysis_def respond_textContent Let_def)

lemma body_composition_no_data:
  assumes "startDate args = Some s" and "endDate args = Some e"
    and "filter (\<lambda>r. body_fat_percentage r \<noteq> None \<or> muscle_mass_percentage r \<noteq> None)
           (getWeightReadings (weight_readings db) s e) = []"
  shows "mcpHandler rep db (toolCall ''get_body_composition'' args)
           = prose (''No body composition data found between '' @ s @ '' and '' @ e)"
  using assms
  by (simp add: mcpHandler_def toolCall_def executeBodyComposition_def respond_textContent Let_def)

lemma current_week_none:
  assumes "getCurrentWeek (weeks db) = None"
  shows "mcpHandler rep db (toolCall ''get_current_week'' args)
           = prose ''No current week in progress. Start a new week to track metrics.''"
  using assms
  by (simp add: mcpHandler_def toolCall_def executeCurrentWeek_def respond_textContent)

text \<open>
  C8. For an authenticated call of each of the six tools, when the store has nothing to
  report (no week with the start date, no readings in the range, no completed weeks on the
  page, no weeks in the range, no body-composition readings, no week in progress), the
  response has status 200 and its body is one text block with a sentence that says so.
\<close>

theorem no_data_answered_in_prose:
  assumes "authMiddleware env auth = None"
  shows "(startDate args = Some s \<and> getWeekByStartDate (weeks db) s = None \<longrightarrow>
            postMcp env rep db auth (toolCall ''get_week_summary'' args)
              = prose (''No week found starting on '' @ s))
       \<and> (startDate args = Some s \<and> endDate args = Some e
          \<and> getWeightReadings (weight_readings db) s e = [] \<longrightarrow>
            postMcp env rep db auth (toolCall ''get_weight_trend'' args)
              = prose (''No weight readings found between '' @ s @ '' and '' @ e))
       \<and> (getWeeks (weeks db) (if truthyNum (limit args) then orZero (limit args) else 10)
             (orZero (offset args)) = [] \<longrightarrow>
            postMcp env rep db auth (toolCall ''get_weekly_history'' args)
              = prose ''No completed weeks found'')
       \<and> (filter (\<lambda>w. geArg (start_date w) (startDate args) \<and> leArg (start_date w) (endDate args))
             (getWeeks (weeks db) 100 0) = [] \<longrightarrow>
            postMcp env rep db auth (toolCall ''analyze_phases'' args)
              = prose (''No weeks found between '' @ showArg (startDate args)
                       @ '' and '' @ showArg (endDate args)))
       \<and> (startDate args = Some s \<and> endDate args = Some e
          \<and> filter (\<lambda>r. body_fat_percentage r \<noteq> None \<or> muscle_mass_percentage r \<noteq> None)
               (getWeightReadings (weight_readings db) s e) = [] \<longrightarrow>
            postMcp env rep db auth (toolCall ''get_body_composition'' args)
              = prose (''No body composition data found between '' @ s @ '' and '' @ e))
       \<and> (getCurrentWeek (weeks db) = None \<longrightarrow>
            postMcp env rep db auth (toolCall ''get_current_week'' args)
              = prose ''No current week in progress. Start a new week to track metrics.'')"
  unfolding postMcp_authenticated [OF assms]
  by (simp add: week_summary_no_week weight_trend_no_readings weekly_history_no_weeks
      phase_analysis_no_weeks body_composition_no_data current_week_none)

theorem no_data_answered_in_prose_witness:
  "authMiddleware \<lparr> API_KEY = Some ''secret'' \<rparr> (Some ''Bearer secret'') = None
   \<and> postMcp \<lparr> API_KEY = Some ''secret'' \<rparr> reportHeadings emptyDatabase (Some ''Bearer secret'')
        (toolCall ''get_week_summary'' (dateRange ''2024-01-07'' ''2024-01-13''))
       = prose ''No week found starting on 2024-01-07''
   \<and> postMcp \<lparr> API_KEY = Some ''secret'' \<rparr> reportHeadings emptyDatabase (Some ''Bearer secret'')
        (toolCall ''get_weight_trend'' (dateRange ''2024-01-07'' ''2024-01-13''))
       = prose ''No weight readings found between 2024-01-07 and 2024-01-13''
   \<and> postMcp \<lparr> API_KEY = Some ''secret'' \<rparr> reportHeadings emptyDatabase (Some ''Bearer secret'')
        (toolCall ''get_weekly_history'' (dateRange ''2024-01-07'' ''2024-01-13''))
       = prose ''No completed weeks found''
   \<and> postMcp \<lparr> API_KEY = Some ''secret'' \<rparr> reportHeadings emptyDatabase (Some ''Bearer secret'')
        (toolCall ''analyze_phases'' (dateRange ''2024-01-07'' ''2024-01-13''))
       = prose ''No weeks found between 2024-01-07 and 2024-01-13''
   \<and> postMcp \<lparr> API_KEY = Some ''secret'' \<rparr> reportHeadings emptyDatabase (Some ''Bearer secret'')
        (toolCall ''get_body_composition'' (dateRange ''2024-01-07'' ''2024-01-13''))
       = prose ''No body composition data found between 2024-01-07 and 2024-01-13''
   \<and> postMcp \<lparr> API_KEY = Some ''secret'' \<rparr> reportHeadings emptyDatabase (Some ''Bearer secret'')
        (toolCall ''get_current_week'' (dateRange ''2024-01-07'' ''2024-01-13''))
       = prose ''No current week in progress. Start a new week to track metrics.''"
proof -
  have h: "authMiddleware \<lparr> API_KEY = Some ''secret'' \<rparr> (Some ''Bearer secret'') = None"
    by (simp add: authMiddleware_def truthyStr_def)
  have c: "startDate (dateRange ''2024-01-07'' ''2024-01-13'') = Some ''2024-01-07''"
    "endDate (dateRange ''2024-01-07'' ''2024-01-13'') = Some ''2024-01-13''"
    "getWeekByStartDate (weeks emptyDatabase) ''2024-01-07'' = None"
    "getWeightReadings (weight_readings emptyDatabase) ''2024-01-07'' ''2024-01-13'' = []"
    "getWeeks (weeks emptyDatabase) n m = []"
    "getCurrentWeek (weeks emptyDatabase) = None" for n m
    by (simp_all add: dateRange_def emptyDatabase_def getWeekByStartDate_def getWeightReadings_def
        getWeeks_def completed_weeks_def getCurrentWeek_def current_week_def newestFirst_def)
  show ?thesis
    using no_data_answered_in_prose [OF h, of "dateRange ''2024-01-07'' ''2024-01-13''"
        "''2024-01-07''" emptyDatabase reportHeadings "''2024-01-13''"] h
    by (simp add: c showArg_def)
qed

section \<open>Properties of authentication and routing\<close>

lemma authMiddleware_missing:
  "authMiddleware env None = Some (json (ErrorJson ''Missing Authorization header'') 401)"
  "authMiddleware env (Some []) = Some (json (ErrorJson ''Missing Authorization header'') 401)"
  by (simp_all add: authMiddleware_def)

lemma authMiddleware_status:
  assumes "authMiddleware env h = Some r"
  shows "status r = 401 \<or> status r = 403 \<or> status r = 500"
  using assms
  by (auto simp: authMiddleware_def json_def Let_def split: option.splits if_splits)

lemma authMiddleware_passes_iff:
  "authMiddleware env h = None \<longleftrightarrow>
     (\<exists>hdr scheme token rest. h = Some hdr \<and> splitOn CHR '' '' hdr = scheme # token # rest
        \<and> scheme = ''Bearer'' \<and> token \<noteq> [] \<and> API_KEY env = Some token)"
proof (cases h)
  case None
  then show ?thesis by (simp add: authMiddleware_def)
next
  case (Some hdr)
  show ?thesis
  proof (cases "splitOn CHR '' '' hdr")
    case Nil
    then show ?thesis using Some
      by (auto simp: authMiddleware_def truthyStr_def Let_def)
  next
    case (Cons scheme ts)
    note c = this
    show ?thesis
    proof (cases ts)
      case Nil
      then show ?thesis using Some c
        by (auto simp: authMiddleware_def truthyStr_def Let_def)
    next
      case (Cons token rest)
      then show ?thesis using Some c
        by (cases "API_KEY env")
          (auto simp: authMiddleware_def truthyStr_def Let_def)
    qed
  qed
qed

lemma authMiddleware_unset_key:
  assumes "splitOn CHR '' '' hdr = ''Bearer'' # token # rest" and "token \<noteq> []"
    and "API_KEY env = None \<or> API_KEY env = Some []"
  shows "authMiddleware env (Some hdr)
           = Some (json (ErrorJson ''Server configuration error: API_KEY not set'') 500)"
proof -
  have "hdr \<noteq> []" using assms(1) by auto
  then show ?thesis using assms
    by (auto simp: authMiddleware_def truthyStr_def Let_def)
qed

lemma mcp_requires_auth:
  "dispatch env \<lparr> req_method = ''POST'', req_path = [''mcp''], authorization = auth \<rparr>
     = (case authMiddleware env auth of Some r \<Rightarrow> Rejected r | None \<Rightarrow> Served McpHandler)"
  by (simp add: dispatch_def appRoutes_def apiRoutes_def mount_def route_def matchesRoute_def routedMethod_def
      split: option.splits)

lemma api_route_shape:
  assumes "r \<in> set (mount ''api'' apiRoutes)"
  shows "\<exists>n p. route_handler r = ApiRoute n \<and> route_path r = Lit ''api'' # p"
  using assms by (auto simp: mount_def apiRoutes_def route_def)

lemma api_served_without_auth:
  assumes "r \<in> set (mount ''api'' apiRoutes)" and "matchesRoute req r"
    and "req_method req \<noteq> ''OPTIONS''"
  shows "\<exists>n. dispatch env req = Served (ApiRoute n)"
proof -
  let ?ms = "filter (matchesRoute req) (mount ''api'' apiRoutes)"
  from assms(1,2) have "r \<in> set ?ms" by simp
  then obtain m ms where ms: "?ms = m # ms" by (cases ?ms) auto
  then have "m \<in> set (mount ''api'' apiRoutes)"
    by (metis filter_is_subset list.set_intros(1) subsetD)
  then obtain n where n: "route_handler m = ApiRoute n" using api_route_shape by blast
  from api_route_shape [OF assms(1)] assms(2) obtain x xs where "req_path req = x # xs"
    by (cases "req_path req") (auto simp: matchesRoute_def routedMethod_def)
  then have root: "\<not> matchesRoute req (route ''GET'' [] RootInfo)"
    by (simp add: matchesRoute_def routedMethod_def route_def)
  have cors: "matchesRoute req (route ''ALL'' [Star] Cors)"
    by (simp add: matchesRoute_def routedMethod_def route_def)
  have "map route_handler (filter (matchesRoute req) appRoutes)
          = Cors # ApiRoute n # map route_handler
              (ms @ filter (matchesRoute req)
                 [ route ''ALL'' [Lit ''api'', Star] AuthMiddleware,
                   route ''POST'' [Lit ''mcp''] AuthMiddleware,
                   route ''POST'' [Lit ''mcp''] McpHandler ])"
    unfolding appRoutes_def filter_append ms using root cors n
    by (simp add: route_def)
  then show ?thesis using assms(3) by (simp add: dispatch_def)
qed

text \<open>
  C7. The routes of the REST API are registered before the authentication middleware, so a
  request to one of them is served by its handler and the middleware is never run: without
  an Authorization header, and with a wrong token. The middleware itself would have
  answered 401 and 403.
\<close>

theorem api_served_without_credentials:
  "dispatch \<lparr> API_KEY = Some ''secret'' \<rparr>
     \<lparr> req_method = ''GET'', req_path = [''api'', ''weeks''], authorization = None \<rparr>
     = Served (ApiRoute ''GET /weeks'')
   \<and> dispatch \<lparr> API_KEY = Some ''secret'' \<rparr>
     \<lparr> req_method = ''POST'', req_path = [''api'', ''weight''],
       authorization = Some ''Bearer wrong'' \<rparr>
     = Served (ApiRoute ''POST /weight'')"
  by (simp add: dispatch_def appRoutes_def apiRoutes_def mount_def route_def matchesRoute_def routedMethod_def)

lemma middleware_would_reject:
  "authMiddleware \<lparr> API_KEY = Some ''secret'' \<rparr> None
     = Some \<lparr> status = 401, body = ErrorJson ''Missing Authorization header'' \<rparr>"
  "authMiddleware \<lparr> API_KEY = Some ''secret'' \<rparr> (Some ''Bearer wrong'')
     = Some \<lparr> status = 403, body = ErrorJson ''Invalid API key'' \<rparr>"
  by (simp_all add: authMiddleware_def json_def truthyStr_def)

text \<open>
  A path under \<^verbatim>\<open>/api\<close> that no route serves does reach the middleware, and so does the
  tool endpoint, whose registration lists the middleware before the handler.
\<close>

lemma unknown_api_path_requires_auth:
  "dispatch env \<lparr> req_method = ''GET'', req_path = [''api'', ''nothing''], authorization = auth \<rparr>
     = (case authMiddleware env auth of Some r \<Rightarrow> Rejected r | None \<Rightarrow> NotFound)"
  by (simp add: dispatch_def appRoutes_def apiRoutes_def mount_def route_def matchesRoute_def routedMethod_def
      split: option.splits)


end
